theory Spec2Isabelle
  imports Complex_Main
begin

section \<open>Configuration (server/config/config.js)\<close>

text \<open>
  The constants of \<^verbatim>\<open>config.sync\<close> and \<^verbatim>\<open>config.healthData\<close> that the ingestion and
  sync routes read. Times are milliseconds since the epoch.
\<close>

definition maxBatchSize :: int where
  "maxBatchSize = 1000"

definition supportedTypes :: "string list" where
  "supportedTypes =
     [''heart_rate'', ''steps'', ''sleep'', ''activity'', ''workout'', ''blood_pressure'',
      ''blood_oxygen'', ''body_temperature'', ''gps_route'', ''calories_burned'',
      ''distance'', ''floors_climbed'']"

definition maxRecordAge :: int where
  "maxRecordAge = 90 * 24 * 60 * 60 * 1000"

record bounds =
  bmin :: rat
  bmax :: rat

definition heartRate :: bounds where
  "heartRate = \<lparr>bmin = 30, bmax = 220\<rparr>"

definition steps :: bounds where
  "steps = \<lparr>bmin = 0, bmax = 100000\<rparr>"

definition bloodPressure_systolic :: bounds where
  "bloodPressure_systolic = \<lparr>bmin = 70, bmax = 250\<rparr>"

definition bloodPressure_diastolic :: bounds where
  "bloodPressure_diastolic = \<lparr>bmin = 40, bmax = 150\<rparr>"

definition bloodOxygen :: bounds where
  "bloodOxygen = \<lparr>bmin = 70, bmax = 100\<rparr>"

definition bodyTemperature :: bounds where
  "bodyTemperature = \<lparr>bmin = 35, bmax = 42\<rparr>"


section \<open>JavaScript values of the request body\<close>

text \<open>
  The wire contract types a record as \<^verbatim>\<open>{timestamp:int64, value:number, unit?, metadata?,
  sourceApp?}\<close>. A field of the decoded JSON body is modelled at that type, with \<open>None\<close>
  for a field that is absent (\<^verbatim>\<open>undefined\<close>):
  \<^item> a timestamp is an integer-valued number, an \<open>int\<close>; on such a number below \<open>10^21\<close>
    in magnitude, as every int64 is, \<^verbatim>\<open>parseInt\<close> is the identity (beyond, it would read
    the exponent notation, which is outside this model);
  \<^item> a value is a finite number; a finite double is a rational, and the comparisons of
    the validator are exact on rationals, so a value is a \<open>rat\<close>; on a number
    \<^verbatim>\<open>parseFloat\<close> is the identity;
  \<^item> the result of \<^verbatim>\<open>parseInt\<close> or \<^verbatim>\<open>parseFloat\<close> is again an option, \<open>None\<close> for
    \<^verbatim>\<open>NaN\<close>.
  Strings, booleans and nested values in the place of a number are outside this model.
  A string is a list of code units below 256, so \<open>length\<close> counts what \<^verbatim>\<open>length\<close> and
  \<^verbatim>\<open>substring\<close> count on such a string.
\<close>

definition truthy :: "('a::zero) option \<Rightarrow> bool" where
  \<comment> \<open>\<^verbatim>\<open>!x\<close> is true for \<^verbatim>\<open>undefined\<close> and for the number 0\<close>
  "truthy x = (case x of None \<Rightarrow> False | Some n \<Rightarrow> n \<noteq> 0)"

definition truthy_str :: "string option \<Rightarrow> bool" where
  \<comment> \<open>\<^verbatim>\<open>!s\<close> is true for \<^verbatim>\<open>undefined\<close> and for the empty string\<close>
  "truthy_str s = (case s of None \<Rightarrow> False | Some t \<Rightarrow> t \<noteq> [])"

definition parseInt :: "int option \<Rightarrow> int option" where
  "parseInt x = x"

definition parseFloat :: "rat option \<Rightarrow> rat option" where
  "parseFloat x = x"

record coord =
  latitude :: "rat option"
  longitude :: "rat option"

text \<open>
  Of the metadata blob only the keys that the validator reads are modelled. An element
  of \<^verbatim>\<open>coordinates\<close> is \<open>None\<close> when it is not an object.
\<close>

record metadata =
  systolic :: "rat option"
  diastolic :: "rat option"
  coordinates :: "coord option list option"

definition no_metadata :: metadata where
  \<comment> \<open>the default parameter \<^verbatim>\<open>metadata = {}\<close>\<close>
  "no_metadata = \<lparr>systolic = None, diastolic = None, coordinates = None\<rparr>"

record health_record =
  r_timestamp :: "int option"
  r_value :: "rat option"
  r_unit :: "string option"
  r_metadata :: "metadata option"
  r_sourceApp :: "string option"


section \<open>Validation (server/utils/validation.js)\<close>

datatype validation = Valid | Invalid string

definition isValid :: "validation \<Rightarrow> bool" where
  "isValid v = (case v of Valid \<Rightarrow> True | Invalid e \<Rightarrow> False)"

definition out_of_range :: "rat option \<Rightarrow> rat \<Rightarrow> rat \<Rightarrow> bool" where
  \<comment> \<open>\<^verbatim>\<open>isNaN(n) || n < lo || n > hi\<close>\<close>
  "out_of_range n lo hi = (case n of None \<Rightarrow> True | Some q \<Rightarrow> q < lo \<or> q > hi)"

definition validateGPSCoordinate :: "coord option \<Rightarrow> bool" where
  "validateGPSCoordinate c =
     (case c of
        None \<Rightarrow> False
      | Some co \<Rightarrow>
          (case (parseFloat (latitude co), parseFloat (longitude co)) of
             (Some lat, Some lng) \<Rightarrow>
               if lat < -90 \<or> lat > 90 then False
               else if lng < -180 \<or> lng > 180 then False
               else True
           | _ \<Rightarrow> False))"

definition degree :: string where
  \<comment> \<open>the degree sign of the body temperature message, code unit 0xB0\<close>
  "degree = [CHR 0xB0]"

definition validateValueByType :: "string \<Rightarrow> rat option \<Rightarrow> metadata \<Rightarrow> validation" where
  "validateValueByType dataType val md =
     (let numValue = parseFloat val in
      if dataType = ''heart_rate'' then
        (if out_of_range numValue (bmin heartRate) (bmax heartRate)
         then Invalid ''Heart rate must be between 30 and 220 bpm'' else Valid)
      else if dataType = ''steps'' then
        (if out_of_range numValue (bmin steps) (bmax steps)
         then Invalid ''Steps must be between 0 and 100000'' else Valid)
      else if dataType = ''blood_pressure'' then
        (if \<not> truthy (systolic md) \<or> \<not> truthy (diastolic md)
         then Invalid ''Blood pressure requires systolic and diastolic values in metadata''
         else if out_of_range (parseFloat (systolic md))
                   (bmin bloodPressure_systolic) (bmax bloodPressure_systolic)
         then Invalid ''Systolic pressure must be between 70 and 250 mmHg''
         else if out_of_range (parseFloat (diastolic md))
                   (bmin bloodPressure_diastolic) (bmax bloodPressure_diastolic)
         then Invalid ''Diastolic pressure must be between 40 and 150 mmHg''
         else Valid)
      else if dataType = ''blood_oxygen'' then
        (if out_of_range numValue (bmin bloodOxygen) (bmax bloodOxygen)
         then Invalid ''Blood oxygen must be between 70% and 100%'' else Valid)
      else if dataType = ''body_temperature'' then
        (if out_of_range numValue (bmin bodyTemperature) (bmax bodyTemperature)
         then Invalid (''Body temperature must be between 35'' @ degree @ ''C and 42''
                        @ degree @ ''C'')
         else Valid)
      else if dataType = ''sleep'' then
        (if out_of_range numValue 0 (24 * 60)
         then Invalid ''Sleep duration must be between 0 and 1440 minutes (24 hours)''
         else Valid)
      else if dataType = ''activity'' \<or> dataType = ''workout'' then
        (if out_of_range numValue 0 (12 * 60)
         then Invalid ''Activity duration must be between 0 and 720 minutes (12 hours)''
         else Valid)
      else if dataType = ''calories_burned'' then
        (if out_of_range numValue 0 10000
         then Invalid ''Calories burned must be between 0 and 10000'' else Valid)
      else if dataType = ''distance'' then
        (if out_of_range numValue 0 1000000
         then Invalid ''Distance must be between 0 and 1000000 meters'' else Valid)
      else if dataType = ''floors_climbed'' then
        (if out_of_range numValue 0 1000
         then Invalid ''Floors climbed must be between 0 and 1000'' else Valid)
      else if dataType = ''gps_route'' then
        (if out_of_range numValue 0 50000
         then Invalid ''GPS route points must be between 0 and 50000''
         else (case coordinates md of
                 None \<Rightarrow> Valid
               | Some cs \<Rightarrow>
                   if list_all validateGPSCoordinate cs then Valid
                   else Invalid ''Invalid GPS coordinates in metadata''))
      else
        (if numValue = None then Invalid ''Value must be a valid number'' else Valid))"

text \<open>
  \<open>validateHealthData now dataType record\<close>, where \<open>now\<close> is what \<^verbatim>\<open>Date.now()\<close>
  returns inside the call. With the fields typed as above nothing in the body throws, so
  the \<^verbatim>\<open>catch\<close> branch has no counterpart.
\<close>

definition validateHealthData :: "int \<Rightarrow> string \<Rightarrow> health_record \<Rightarrow> validation" where
  "validateHealthData now dataType record =
     (if \<not> truthy (r_timestamp record) \<or> \<not> truthy (r_value record)
      then Invalid ''Missing required fields: timestamp and value''
      else
        (case parseInt (r_timestamp record) of
           None \<Rightarrow> Invalid ''Invalid timestamp''
         | Some ts \<Rightarrow>
             if ts < 0 then Invalid ''Invalid timestamp''
             else if now - ts > maxRecordAge
             then Invalid ''Record too old (max age: 7776000000ms)''
             else if ts > now + (5 * 60 * 1000)
             then Invalid ''Timestamp cannot be in the future''
             else validateValueByType dataType (r_value record)
                    (case r_metadata record of None \<Rightarrow> no_metadata | Some md \<Rightarrow> md)))"


section \<open>Sanitization (server/utils/validation.js)\<close>

definition isWhiteSpace :: "char \<Rightarrow> bool" where
  \<comment> \<open>what \<^verbatim>\<open>trim\<close> removes, among the code units below 256: TAB, LF, VT, FF, CR,
      space and the no-break space\<close>
  "isWhiteSpace c =
     (c \<in> set [CHR 0x09, CHR 0x0A, CHR 0x0B, CHR 0x0C, CHR 0x0D, CHR 0x20, CHR 0xA0])"

definition isMarkup :: "char \<Rightarrow> bool" where
  \<comment> \<open>the character class of the regular expression: less-than, greater-than, double
      quote, single quote and ampersand\<close>
  "isMarkup c = (c \<in> set [CHR 0x3C, CHR 0x3E, CHR 0x22, CHR 0x27, CHR 0x26])"

definition trim :: "string \<Rightarrow> string" where
  "trim s = rev (dropWhile isWhiteSpace (rev (dropWhile isWhiteSpace s)))"

definition sanitizeString :: "string \<Rightarrow> string" where
  "sanitizeString str = take 255 (trim (filter (\<lambda>c. \<not> isMarkup c) str))"

definition sanitizeString_opt :: "string option \<Rightarrow> string option" where
  \<comment> \<open>\<^verbatim>\<open>typeof str !== 'string'\<close> gives \<^verbatim>\<open>null\<close>\<close>
  "sanitizeString_opt s = map_option sanitizeString s"

definition sanitizeCoord :: "coord \<Rightarrow> coord" where
  \<comment> \<open>\<open>sanitizeMetadata\<close> on an element of \<^verbatim>\<open>coordinates\<close>: its keys are unchanged by
      \<open>sanitizeString\<close> and its numbers are kept\<close>
  "sanitizeCoord c = c"

definition sanitizeMetadata :: "metadata \<Rightarrow> metadata" where
  \<comment> \<open>numbers are kept; of an array the elements that are objects are kept, sanitized,
      and the array is cut at 1000 elements\<close>
  "sanitizeMetadata md =
     md\<lparr>coordinates :=
          map_option
            (\<lambda>cs. take 1000 (map (map_option sanitizeCoord) (filter (\<lambda>c. c \<noteq> None) cs)))
            (coordinates md)\<rparr>"

record sanitized_record =
  s_timestamp :: "int option"
  s_value :: "rat option"
  s_unit :: "string option"
  s_sourceApp :: "string option"
  s_metadata :: "metadata option"

definition sanitizeHealthData :: "string \<Rightarrow> health_record \<Rightarrow> sanitized_record" where
  "sanitizeHealthData dataType record =
     \<lparr>s_timestamp = parseInt (r_timestamp record),
      s_value = parseFloat (r_value record),
      s_unit = sanitizeString_opt (r_unit record),
      s_sourceApp = sanitizeString_opt (r_sourceApp record),
      s_metadata = map_option sanitizeMetadata (r_metadata record)\<rparr>"


section \<open>The store (server/database/init.js)\<close>

text \<open>
  The three tables that the ingestion and sync routes use. \<^verbatim>\<open>devices\<close> and
  \<^verbatim>\<open>sync_sessions\<close> have a primary key and are maps from it; \<^verbatim>\<open>health_data\<close> has none
  but the row number, and is the list of its rows in insertion order. A nullable column
  is an option. Columns of type DATETIME hold a reading of the store's clock.
\<close>

record device =
  d_name :: string
  d_type :: string
  last_seen :: int
  last_sync_timestamp :: "int option"
  is_active :: bool
  d_metadata :: string
  created_at :: int
  updated_at :: int

record health_row =
  h_device_id :: string
  h_data_type :: string
  h_timestamp :: int
  h_value :: "rat option"
  h_unit :: "string option"
  h_metadata :: "metadata option"
  h_source_app :: "string option"
  h_created_at :: int

record sync_session =
  ss_device_id :: string
  sync_type :: string
  status :: string
  records_synced :: int
  start_time :: int
  end_time :: "int option"
  error_message :: "string option"

record db =
  devices :: "string \<rightharpoonup> device"
  health_data :: "health_row list"
  sync_sessions :: "string \<rightharpoonup> sync_session"

text \<open>
  The statements with which the handlers write to the store: the insertion or touch of a
  device row by \<open>ensureDeviceExists\<close>, the \<open>k\<close>-th insertion of a health record of a
  request, the update of a cursor, the insertion and the update of a session.
\<close>

datatype statement =
    TouchDevice
  | InsertRecord nat
  | UpdateCursor
  | InsertSession
  | UpdateSession

text \<open>
  What a request takes from outside the store: \<open>clock e i\<close> is the reading of
  \<^verbatim>\<open>Date.now()\<close> while the \<open>i\<close>-th record of the batch is validated, and
  \<open>clock e n\<close>, for a batch of \<open>n\<close> records, the reading after the loop;
  \<open>current_timestamp\<close> is the store's \<^verbatim>\<open>CURRENT_TIMESTAMP\<close>; \<open>rejects e s\<close> tells
  whether the store rejects the statement \<open>s\<close> of this request for a reason of its own
  (a busy timeout, an I/O error), which makes \<^verbatim>\<open>runQuery\<close> throw; \<open>uuidv4\<close> is the
  identifier drawn for a new session. A query that only reads comes, in every handler,
  before the first write; its failure is answered with status 500 and is not modelled.
\<close>

record env =
  clock :: "nat \<Rightarrow> int"
  current_timestamp :: int
  rejects :: "statement \<Rightarrow> bool"
  uuidv4 :: string

datatype 'a response =
    Status200 'a
  | Status400 string
  | Status404 string
  | Status500

definition or_else :: "string option \<Rightarrow> string \<Rightarrow> string" where
  \<comment> \<open>\<^verbatim>\<open>a || b\<close> on a string that may be absent\<close>
  "or_else a b = (case a of None \<Rightarrow> b | Some s \<Rightarrow> if s = [] then b else s)"

definition or_null :: "string option \<Rightarrow> string option" where
  \<comment> \<open>\<^verbatim>\<open>a || null\<close>\<close>
  "or_null a = (case a of None \<Rightarrow> None | Some s \<Rightarrow> if s = [] then None else Some s)"

definition auto_created :: string where
  \<comment> \<open>\<^verbatim>\<open>JSON.stringify({ auto_created: true })\<close>\<close>
  "auto_created = ''{'' @ [CHR 0x22] @ ''auto_created'' @ [CHR 0x22] @ '':true}''"


section \<open>Ingestion (server/routes/healthData.js)\<close>

text \<open>
  A statement that the store rejects makes \<^verbatim>\<open>runQuery\<close> throw: the result is \<open>None\<close>.
  The insertion of a device is rejected also when its type fails the table's CHECK
  constraint. Every update of a device row fires the trigger that sets \<^verbatim>\<open>updated_at\<close>.
\<close>

definition ensureDeviceExists ::
  "env \<Rightarrow> string \<Rightarrow> string option \<Rightarrow> string \<Rightarrow> db \<Rightarrow> db option" where
  "ensureDeviceExists e deviceId deviceName deviceType d =
     (case devices d deviceId of
        None \<Rightarrow>
          if \<not> rejects e TouchDevice \<and> deviceType \<in> set [''wearos'', ''ios'']
          then Some (d\<lparr>devices := (devices d)(deviceId \<mapsto>
                 \<lparr>d_name = or_else deviceName (deviceType @ '' Device''),
                  d_type = deviceType,
                  last_seen = current_timestamp e,
                  last_sync_timestamp = Some 0,
                  is_active = True,
                  d_metadata = auto_created,
                  created_at = current_timestamp e,
                  updated_at = current_timestamp e\<rparr>)\<rparr>)
          else None
      | Some dev \<Rightarrow>
          if rejects e TouchDevice then None
          else
            Some (d\<lparr>devices := (devices d)(deviceId \<mapsto>
                   dev\<lparr>last_seen := current_timestamp e,
                       updated_at := current_timestamp e\<rparr>)\<rparr>))"

text \<open>
  One \<^verbatim>\<open>INSERT INTO health_data\<close>. The store rejects it when \<open>fails\<close> says so, when no
  device row has the identifier (the foreign key) and when the timestamp is \<^verbatim>\<open>NaN\<close>,
  which is bound as NULL to a NOT NULL column.
\<close>

definition insertHealthRow ::
  "bool \<Rightarrow> int \<Rightarrow> string \<Rightarrow> string \<Rightarrow> sanitized_record \<Rightarrow> db \<Rightarrow> db option" where
  "insertHealthRow fails now deviceId dataType r d =
     (if fails then None
      else if devices d deviceId = None then None
      else
        (case s_timestamp r of
           None \<Rightarrow> None
         | Some ts \<Rightarrow>
             Some (d\<lparr>health_data := health_data d @
                    [\<lparr>h_device_id = deviceId,
                      h_data_type = dataType,
                      h_timestamp = ts,
                      h_value = s_value r,
                      h_unit = or_null (s_unit r),
                      h_metadata = s_metadata r,
                      h_source_app = or_null (s_sourceApp r),
                      h_created_at = now\<rparr>]\<rparr>)))"

text \<open>
  The loop of \<open>insertHealthRecords\<close>, from the \<open>k\<close>-th insertion of the request on: a
  rejected insertion is logged and skipped, an accepted one is counted.
\<close>

fun insertHealthRecords ::
  "env \<Rightarrow> nat \<Rightarrow> string \<Rightarrow> string \<Rightarrow> sanitized_record list \<Rightarrow> db \<Rightarrow> nat \<times> db" where
  "insertHealthRecords e k deviceId dataType [] d = (0, d)"
| "insertHealthRecords e k deviceId dataType (r # rs) d =
     (case insertHealthRow (rejects e (InsertRecord k)) (current_timestamp e) deviceId
             dataType r d of
        None \<Rightarrow> insertHealthRecords e (Suc k) deviceId dataType rs d
      | Some d' \<Rightarrow>
          (case insertHealthRecords e (Suc k) deviceId dataType rs d' of
             (insertedCount, d'') \<Rightarrow> (Suc insertedCount, d'')))"

definition updateDeviceLastSync :: "env \<Rightarrow> string \<Rightarrow> int option \<Rightarrow> db \<Rightarrow> db option" where
  "updateDeviceLastSync e deviceId ts d =
     (if rejects e UpdateCursor then None
      else
        (case devices d deviceId of
           None \<Rightarrow> Some d
         | Some dev \<Rightarrow>
             Some (d\<lparr>devices := (devices d)(deviceId \<mapsto>
                    dev\<lparr>last_sync_timestamp := ts,
                        updated_at := current_timestamp e\<rparr>)\<rparr>)))"

definition max2 :: "int option \<Rightarrow> int option \<Rightarrow> int option" where
  \<comment> \<open>the larger of two numbers, \<^verbatim>\<open>NaN\<close> when one of them is\<close>
  "max2 a b = (case (a, b) of (Some x, Some y) \<Rightarrow> Some (max x y) | _ \<Rightarrow> None)"

definition Math_max :: "int option \<Rightarrow> int option list \<Rightarrow> int option" where
  \<comment> \<open>\<^verbatim>\<open>Math.max\<close> of one argument or more\<close>
  "Math_max x xs = foldl max2 x xs"

text \<open>
  The validation loop of the handler, from the record of index \<open>i\<close> on: the sanitized
  records that passed, in order, and the errors with the index of their record. On
  records of the type above neither \<open>validateHealthData\<close> nor \<open>sanitizeHealthData\<close>
  throws, so the \<^verbatim>\<open>catch\<close> of the loop body, which would add an error of the same form,
  has no counterpart.
\<close>

fun process_records ::
  "env \<Rightarrow> string \<Rightarrow> nat \<Rightarrow> health_record list \<Rightarrow> sanitized_record list \<times> (nat \<times> string) list"
  where
  "process_records e dataType i [] = ([], [])"
| "process_records e dataType i (r # rs) =
     (case process_records e dataType (Suc i) rs of
        (validRecords, errors) \<Rightarrow>
          (case validateHealthData (clock e i) dataType r of
             Invalid err \<Rightarrow> (validRecords, (i, err) # errors)
           | Valid \<Rightarrow> (sanitizeHealthData dataType r # validRecords, errors)))"

record ingest_request =
  q_deviceId :: "string option"
  q_dataType :: "string option"
  q_deviceName :: "string option"
  q_deviceType :: "string option"
  q_records :: "health_record list option"

record processed =
  p_total :: nat
  p_inserted :: nat
  p_errors :: nat

record ingest_body =
  b_processed :: processed
  b_errors :: "(nat \<times> string) list"

definition missing_fields :: string where
  "missing_fields = ''Missing required fields: deviceId, dataType, records (array)''"

text \<open>
  \<^verbatim>\<open>POST /api/v1/health-data\<close>. \<open>q_records\<close> is \<open>None\<close> when the body's \<^verbatim>\<open>records\<close> is
  not an array. The handler returns its response and the store it leaves. A statement
  that throws outside \<open>insertHealthRecords\<close> ends the handler with status 500 and leaves
  what was written before it.
\<close>

definition post_health_data ::
  "env \<Rightarrow> ingest_request \<Rightarrow> db \<Rightarrow> ingest_body response \<times> db" where
  "post_health_data e req d =
     (case (q_deviceId req, q_dataType req, q_records req) of
        (Some deviceId, Some dataType, Some records) \<Rightarrow>
          if deviceId = [] \<or> dataType = [] then (Status400 missing_fields, d)
          else if dataType \<notin> set supportedTypes
          then (Status400 (''Unsupported data type: '' @ dataType), d)
          else if int (length records) > maxBatchSize
          then (Status400 ''Batch size exceeds maximum allowed (1000)'', d)
          else
            (case ensureDeviceExists e deviceId (q_deviceName req)
                    (or_else (q_deviceType req) ''wearos'') d of
               None \<Rightarrow> (Status500, d)
             | Some d1 \<Rightarrow>
                 (case process_records e dataType 0 records of
                    (validRecords, errors) \<Rightarrow>
                      (case (if validRecords \<noteq> []
                             then insertHealthRecords e 0 deviceId dataType validRecords d1
                             else (0, d1)) of
                         (insertedCount, d2) \<Rightarrow>
                           let maxTimestamp =
                                 (case map s_timestamp validRecords of
                                    [] \<Rightarrow> Some (clock e (length records))
                                  | t # ts \<Rightarrow> Math_max t ts)
                           in
                           (case updateDeviceLastSync e deviceId maxTimestamp d2 of
                              None \<Rightarrow> (Status500, d2)
                            | Some d3 \<Rightarrow>
                                (Status200
                                   \<lparr>b_processed =
                                      \<lparr>p_total = length records,
                                       p_inserted = insertedCount,
                                       p_errors = length errors\<rparr>,
                                    b_errors = errors\<rparr>,
                                 d3)))))
      | _ \<Rightarrow> (Status400 missing_fields, d))"


section \<open>Sync sessions and sync reads (server/routes/sync.js)\<close>

subsection \<open>\<^verbatim>\<open>parseInt\<close> on a string\<close>

text \<open>
  The parameters of a query arrive as strings. \<^verbatim>\<open>parseInt\<close> without a radix skips
  leading whitespace, reads a sign, takes a prefix \<^verbatim>\<open>0x\<close> or \<^verbatim>\<open>0X\<close> for radix 16,
  reads the longest run of digits and ignores the rest; with no digit the result is
  \<^verbatim>\<open>NaN\<close>. The value is the exact integer (a double rounds it from \<open>2^53\<close> on).
\<close>

definition digitValue :: "char \<Rightarrow> nat" where
  \<comment> \<open>the value of a digit or letter, 36 for any other character\<close>
  "digitValue c =
     (let n = (of_char c :: nat) in
      if 48 \<le> n \<and> n \<le> 57 then n - 48
      else if 97 \<le> n \<and> n \<le> 122 then n - 87
      else if 65 \<le> n \<and> n \<le> 90 then n - 55
      else 36)"

definition radixValue :: "nat \<Rightarrow> string \<Rightarrow> nat" where
  "radixValue R Z = foldl (\<lambda>a c. a * R + digitValue c) 0 Z"

definition parseInt_str :: "string \<Rightarrow> int option" where
  "parseInt_str s =
     (let S = dropWhile isWhiteSpace s;
          sgn = (case S of [] \<Rightarrow> 1 | c # r \<Rightarrow> if c = CHR ''-'' then - 1 else (1::int));
          S1 = (case S of [] \<Rightarrow> [] | c # r \<Rightarrow> if c = CHR ''+'' \<or> c = CHR ''-'' then r else S);
          hex = (take 2 S1 = ''0x'' \<or> take 2 S1 = ''0X'');
          S2 = (if hex then drop 2 S1 else S1);
          R = (if hex then 16 else 10);
          Z = takeWhile (\<lambda>c. digitValue c < R) S2
      in if Z = [] then None else Some (sgn * int (radixValue R Z)))"

definition nan_or_negative :: "int option \<Rightarrow> bool" where
  \<comment> \<open>\<^verbatim>\<open>isNaN(n) || n < 0\<close>\<close>
  "nan_or_negative n = (case n of None \<Rightarrow> True | Some k \<Rightarrow> k < 0)"

text \<open>A parameter that is \<open>None\<close> is \<^verbatim>\<open>undefined\<close>.\<close>

definition validateSyncParams ::
  "string option \<Rightarrow> string option \<Rightarrow> string option \<Rightarrow> string option \<Rightarrow> validation" where
  "validateSyncParams since until limit offset =
     (if since \<noteq> None \<and> nan_or_negative (Option.bind since parseInt_str)
      then Invalid ''Since parameter must be a valid timestamp''
      else if until \<noteq> None \<and> nan_or_negative (Option.bind until parseInt_str)
      then Invalid ''Until parameter must be a valid timestamp''
      else if limit \<noteq> None \<and>
              (case Option.bind limit parseInt_str of
                 None \<Rightarrow> True
               | Some limitNum \<Rightarrow> limitNum < 1 \<or> limitNum > maxBatchSize)
      then Invalid ''Limit must be between 1 and 1000''
      else if offset \<noteq> None \<and> nan_or_negative (Option.bind offset parseInt_str)
      then Invalid ''Offset must be a non-negative number''
      else Valid)"

subsection \<open>Sessions\<close>

record start_request =
  st_deviceId :: "string option"
  st_syncType :: "string option"

record start_body =
  sb_sessionId :: string
  sb_syncType :: string

text \<open>
  \<^verbatim>\<open>POST /api/v1/sync/start\<close>. The insertion of the session is rejected when the
  identifier drawn is already a key of the table.
\<close>

definition post_sync_start :: "env \<Rightarrow> start_request \<Rightarrow> db \<Rightarrow> start_body response \<times> db" where
  "post_sync_start e req d =
     (let syncType = (case st_syncType req of None \<Rightarrow> ''http'' | Some t \<Rightarrow> t) in
      case st_deviceId req of
        None \<Rightarrow> (Status400 ''Device ID is required'', d)
      | Some deviceId \<Rightarrow>
          if deviceId = [] then (Status400 ''Device ID is required'', d)
          else if syncType \<notin> set [''http'', ''bluetooth'']
          then (Status400
                  (''Sync type must be either '' @ [CHR 0x22] @ ''http'' @ [CHR 0x22] @ '' or ''
                     @ [CHR 0x22] @ ''bluetooth'' @ [CHR 0x22]), d)
          else if devices d deviceId = None
          then (Status404 ''Device not found. Please register the device first.'', d)
          else
            (let sessionId = uuidv4 e in
             if sync_sessions d sessionId \<noteq> None \<or> rejects e InsertSession
             then (Status500, d)
             else
               (Status200 \<lparr>sb_sessionId = sessionId, sb_syncType = syncType\<rparr>,
                d\<lparr>sync_sessions := (sync_sessions d)(sessionId \<mapsto>
                     \<lparr>ss_device_id = deviceId,
                      sync_type = syncType,
                      status = ''started'',
                      records_synced = 0,
                      start_time = current_timestamp e,
                      end_time = None,
                      error_message = None\<rparr>)\<rparr>)))"

record complete_request =
  c_sessionId :: "string option"
  c_recordsSynced :: "int option"
  c_errorMessage :: "string option"

record complete_body =
  cb_status :: string
  cb_recordsSynced :: int

text \<open>
  \<^verbatim>\<open>POST /api/v1/sync/complete\<close>. \<^verbatim>\<open>recordsSynced\<close> is 0 when the body has none. An
  error message counts as given when it is a string that is not empty.
\<close>

definition post_sync_complete ::
  "env \<Rightarrow> complete_request \<Rightarrow> db \<Rightarrow> complete_body response \<times> db" where
  "post_sync_complete e req d =
     (let recordsSynced = (case c_recordsSynced req of None \<Rightarrow> 0 | Some n \<Rightarrow> n);
          errorMessage = c_errorMessage req
      in
      case c_sessionId req of
        None \<Rightarrow> (Status400 ''Session ID is required'', d)
      | Some sessionId \<Rightarrow>
          if sessionId = [] then (Status400 ''Session ID is required'', d)
          else
            (case sync_sessions d sessionId of
               None \<Rightarrow> (Status404 ''Sync session not found'', d)
             | Some session \<Rightarrow>
                 if status session \<noteq> ''started''
                 then (Status400 (''Cannot complete session with status: '' @ status session), d)
                 else if rejects e UpdateSession then (Status500, d)
                 else
                   (let st = (if truthy_str errorMessage then ''failed'' else ''completed'') in
                    (Status200 \<lparr>cb_status = st, cb_recordsSynced = recordsSynced\<rparr>,
                     d\<lparr>sync_sessions := (sync_sessions d)(sessionId \<mapsto>
                          session\<lparr>status := st,
                                  records_synced := recordsSynced,
                                  end_time := Some (current_timestamp e),
                                  error_message := or_null errorMessage\<rparr>)\<rparr>))))"

subsection \<open>Sync read and cursor update\<close>

record sync_query =
  sq_since :: "string option"
  sq_until :: "string option"
  sq_dataType :: "string option"
  sq_limit :: "string option"
  sq_offset :: "string option"

record sync_body =
  sy_data :: "health_row list"
  sy_total :: nat
  sy_limit :: int
  sy_offset :: int
  sy_hasMore :: bool
  sy_lastSyncTimestamp :: "int option"

definition positive :: "int option \<Rightarrow> bool" where
  \<comment> \<open>\<^verbatim>\<open>x > 0\<close>, false for \<^verbatim>\<open>null\<close> and \<^verbatim>\<open>NaN\<close>\<close>
  "positive x = (case x of None \<Rightarrow> False | Some n \<Rightarrow> n > 0)"

definition greater_than :: "int \<Rightarrow> int option \<Rightarrow> bool" where
  \<comment> \<open>the SQL comparison \<^verbatim>\<open>x > ?\<close>, not true when the parameter is NULL\<close>
  "greater_than x p = (case p of None \<Rightarrow> False | Some n \<Rightarrow> x > n)"

definition at_most :: "int \<Rightarrow> int option \<Rightarrow> bool" where
  \<comment> \<open>the SQL comparison \<^verbatim>\<open>x <= ?\<close>, not true when the parameter is NULL\<close>
  "at_most x p = (case p of None \<Rightarrow> False | Some n \<Rightarrow> x \<le> n)"

definition where_all :: "(health_row \<Rightarrow> bool) list \<Rightarrow> health_row list \<Rightarrow> health_row list" where
  \<comment> \<open>the rows that satisfy the conditions joined by \<^verbatim>\<open>AND\<close>\<close>
  "where_all conditions rows = filter (\<lambda>r. list_all (\<lambda>c. c r) conditions) rows"

definition order_by_timestamp_desc :: "health_row list \<Rightarrow> health_row list" where
  \<comment> \<open>SQL leaves the order of rows with equal timestamps open; here the later row
      comes first\<close>
  "order_by_timestamp_desc rows = rev (sort_key h_timestamp rows)"

definition limit_offset :: "int \<Rightarrow> int \<Rightarrow> 'a list \<Rightarrow> 'a list" where
  \<comment> \<open>\<^verbatim>\<open>LIMIT ? OFFSET ?\<close>: a negative limit is no limit, a negative offset is 0\<close>
  "limit_offset l off rows =
     (let rest = drop (nat off) rows in if l < 0 then rest else take (nat l) rest)"

text \<open>
  The conditions of the query, joined by \<^verbatim>\<open>AND\<close>: the first excludes the rows of the
  requesting device; the others are there when the watermark is positive, when
  \<^verbatim>\<open>until\<close> is given and when \<^verbatim>\<open>dataType\<close> is given.
\<close>

definition sync_conditions ::
  "string \<Rightarrow> int option \<Rightarrow> string option \<Rightarrow> string option \<Rightarrow> (health_row \<Rightarrow> bool) list" where
  "sync_conditions deviceId sinceTimestamp until dataType =
     [\<lambda>r. h_device_id r \<noteq> deviceId]
     @ (if positive sinceTimestamp
        then [\<lambda>r. greater_than (h_timestamp r) sinceTimestamp] else [])
     @ (if truthy_str until
        then [\<lambda>r. at_most (h_timestamp r) (Option.bind until parseInt_str)] else [])
     @ (if truthy_str dataType
        then [\<lambda>r. Some (h_data_type r) = dataType] else [])"

text \<open>
  \<^verbatim>\<open>GET /api/v1/sync/data/:deviceId\<close>. The defaults \<^verbatim>\<open>limit = 1000\<close> and
  \<^verbatim>\<open>offset = 0\<close> are numbers, which \<^verbatim>\<open>parseInt\<close> reads as it reads their decimal
  strings. The handler answers an unsupported data type while it builds the conditions;
  here the check comes first, which is the same since building them has no effect. A
  limit or offset that is \<^verbatim>\<open>NaN\<close> cannot be bound and makes the query throw.
\<close>

definition get_sync_data :: "string \<Rightarrow> sync_query \<Rightarrow> db \<Rightarrow> sync_body response \<times> db" where
  "get_sync_data deviceId q d =
     (let since = sq_since q;
          until = sq_until q;
          dataType = sq_dataType q;
          limit = (case sq_limit q of None \<Rightarrow> ''1000'' | Some l \<Rightarrow> l);
          offset = (case sq_offset q of None \<Rightarrow> ''0'' | Some off \<Rightarrow> off)
      in
      case validateSyncParams since until (Some limit) (Some offset) of
        Invalid err \<Rightarrow> (Status400 err, d)
      | Valid \<Rightarrow>
          (case devices d deviceId of
             None \<Rightarrow> (Status404 ''Device not found'', d)
           | Some dev \<Rightarrow>
               (let sinceTimestamp =
                      (if truthy_str since then Option.bind since parseInt_str
                       else last_sync_timestamp dev)
                in
                if truthy_str dataType \<and> or_else dataType [] \<notin> set supportedTypes
                then (Status400 (''Unsupported data type: '' @ or_else dataType []), d)
                else
                  (let conditions = sync_conditions deviceId sinceTimestamp until dataType;
                       limitNum = map_option (\<lambda>l. min l maxBatchSize) (parseInt_str limit);
                       offsetNum = parseInt_str offset
                   in
                   case (limitNum, offsetNum) of
                     (Some l, Some off) \<Rightarrow>
                       (let records =
                              limit_offset l off
                                (order_by_timestamp_desc (where_all conditions (health_data d)));
                            total = length (where_all conditions (health_data d))
                        in (Status200
                              \<lparr>sy_data = records,
                               sy_total = total,
                               sy_limit = l,
                               sy_offset = off,
                               sy_hasMore = (off + int (length records) < int total),
                               sy_lastSyncTimestamp = sinceTimestamp\<rparr>, d))
                   | _ \<Rightarrow> (Status500, d)))))"



section \<open>Notions used to state the properties\<close>

text \<open>
  The path of the ingestion handler through its checks, the touch of the device row, the
  validation loop and the insertions, with the values it has when it comes to update
  the cursor.
\<close>

definition reached ::
  "env \<Rightarrow> ingest_request \<Rightarrow> db \<Rightarrow> string \<Rightarrow> string \<Rightarrow> health_record list \<Rightarrow>
   sanitized_record list \<Rightarrow> (nat \<times> string) list \<Rightarrow> nat \<Rightarrow> db \<Rightarrow> db \<Rightarrow> bool" where
  "reached e req d dev dt records vs es n d1 d2 =
     (q_deviceId req = Some dev \<and> q_dataType req = Some dt \<and> q_records req = Some records \<and>
      dev \<noteq> [] \<and> dt \<in> set supportedTypes \<and> int (length records) \<le> maxBatchSize \<and>
      ensureDeviceExists e dev (q_deviceName req) (or_else (q_deviceType req) ''wearos'') d
        = Some d1 \<and>
      process_records e dt 0 records = (vs, es) \<and>
      insertHealthRecords e 0 dev dt vs d1 = (n, d2))"

definition lastSyncCursor :: "db \<Rightarrow> string \<Rightarrow> int option" where
  \<comment> \<open>the \<^verbatim>\<open>last_sync_timestamp\<close> of a device, \<open>None\<close> when it has no row or the column
      is NULL\<close>
  "lastSyncCursor d deviceId = Option.bind (devices d deviceId) last_sync_timestamp"

definition not_rolled_back :: "int option \<Rightarrow> int option \<Rightarrow> bool" where
  \<comment> \<open>a cursor before and after an operation: it did not go down\<close>
  "not_rolled_back before after =
     (case before of
        None \<Rightarrow> True
      | Some a \<Rightarrow> (case after of None \<Rightarrow> False | Some b \<Rightarrow> a \<le> b))"

definition batch_cursor :: "env \<Rightarrow> string \<Rightarrow> health_record list \<Rightarrow> int option" where
  \<comment> \<open>\<^verbatim>\<open>maxTimestamp\<close>, the value that the ingestion handler passes to
      \<open>updateDeviceLastSync\<close>\<close>
  "batch_cursor e dataType records =
     (case map s_timestamp (fst (process_records e dataType 0 records)) of
        [] \<Rightarrow> Some (clock e (length records))
      | t # ts \<Rightarrow> Math_max t ts)"

text \<open>
  Concrete inputs: a wall clock that stands still, with a store that accepts every
  statement or one that rejects every insertion of a health record; an empty store;
  records and requests.
\<close>

definition env0 :: env where
  "env0 = \<lparr>clock = (\<lambda>i. 1700000000000), current_timestamp = 1700000000,
           rejects = (\<lambda>s. False), uuidv4 = ''session-1''\<rparr>"

definition env_storage_down :: env where
  "env_storage_down =
     env0\<lparr>rejects := (\<lambda>s. case s of InsertRecord k \<Rightarrow> True | _ \<Rightarrow> False)\<rparr>"

definition empty_db :: db where
  "empty_db = \<lparr>devices = Map.empty, health_data = [], sync_sessions = Map.empty\<rparr>"

definition reading :: "int \<Rightarrow> rat \<Rightarrow> health_record" where
  "reading ts v =
     \<lparr>r_timestamp = Some ts, r_value = Some v, r_unit = None, r_metadata = None,
      r_sourceApp = None\<rparr>"

definition batch :: "string \<Rightarrow> string \<Rightarrow> health_record list \<Rightarrow> ingest_request" where
  "batch deviceId dataType records =
     \<lparr>q_deviceId = Some deviceId, q_dataType = Some dataType, q_deviceName = None,
      q_deviceType = None, q_records = Some records\<rparr>"

text \<open>The store after the device \<^verbatim>\<open>w1\<close> has sent one heart rate of 72.\<close>

definition db_a :: db where
  "db_a =
     \<lparr>devices =
        [''w1'' \<mapsto>
           \<lparr>d_name = ''wearos Device'', d_type = ''wearos'', last_seen = 1700000000,
            last_sync_timestamp = Some 1700000000000, is_active = True,
            d_metadata = auto_created, created_at = 1700000000, updated_at = 1700000000\<rparr>],
      health_data =
        [\<lparr>h_device_id = ''w1'', h_data_type = ''heart_rate'', h_timestamp = 1700000000000,
          h_value = Some 72, h_unit = None, h_metadata = None, h_source_app = None,
          h_created_at = 1700000000\<rparr>],
      sync_sessions = Map.empty\<rparr>"

text \<open>Inputs for the sync routes: a store with two devices and three records.\<close>

definition row :: "string \<Rightarrow> int \<Rightarrow> rat \<Rightarrow> health_row" where
  "row deviceId ts v =
     \<lparr>h_device_id = deviceId, h_data_type = ''heart_rate'', h_timestamp = ts,
      h_value = Some v, h_unit = None, h_metadata = None, h_source_app = None,
      h_created_at = 1700000000\<rparr>"

definition device_row :: "string \<Rightarrow> int option \<Rightarrow> device" where
  "device_row ty cursor =
     \<lparr>d_name = ty @ '' Device'', d_type = ty, last_seen = 1700000000,
      last_sync_timestamp = cursor, is_active = True, d_metadata = auto_created,
      created_at = 1700000000, updated_at = 1700000000\<rparr>"

definition db_sync :: db where
  "db_sync =
     \<lparr>devices = [''w1'' \<mapsto> device_row ''wearos'' (Some 1700000002000),
                 ''p1'' \<mapsto> device_row ''ios'' (Some 0)],
      health_data = [row ''w1'' 1700000001000 72, row ''p1'' 1700000001500 80,
                     row ''w1'' 1700000002000 75],
      sync_sessions = Map.empty\<rparr>"

definition query_since :: "string \<Rightarrow> sync_query" where
  "query_since s =
     \<lparr>sq_since = Some s, sq_until = None, sq_dataType = None, sq_limit = None,
      sq_offset = None\<rparr>"

definition db_started :: db where
  "db_started =
     db_sync\<lparr>sync_sessions :=
        [''session-1'' \<mapsto>
           \<lparr>ss_device_id = ''p1'', sync_type = ''http'', status = ''started'',
            records_synced = 0, start_time = 1700000000, end_time = None,
            error_message = None\<rparr>]\<rparr>"

definition completion :: "string \<Rightarrow> int \<Rightarrow> string option \<Rightarrow> complete_request" where
  "completion sessionId n err =
     \<lparr>c_sessionId = Some sessionId, c_recordsSynced = Some n, c_errorMessage = err\<rparr>"

definition trimEnd :: "string \<Rightarrow> string" where
  \<comment> \<open>the right half of \<open>trim\<close>, used to describe a second pass of the sanitizer\<close>
  "trimEnd s = rev (dropWhile isWhiteSpace (rev s))"


section \<open>Properties of the validator\<close>

lemma validateHealthData_Valid_window:
  assumes "validateHealthData now dataType r = Valid"
  shows "\<exists>ts. r_timestamp r = Some ts \<and> ts \<noteq> 0 \<and> 0 \<le> ts \<and>
              now - maxRecordAge \<le> ts \<and> ts \<le> now + 5 * 60 * 1000"
  using assms
  by (auto simp: validateHealthData_def truthy_def parseInt_def split: option.splits if_splits)




section \<open>Properties of the ingestion loops\<close>

lemma process_records_length:
  "process_records e dt i rs = (vs, es) \<Longrightarrow> length vs + length es = length rs"
  by (induction rs arbitrary: i vs es) (auto split: prod.splits validation.splits)

lemma process_records_valid:
  "process_records e dt i rs = (vs, es) \<Longrightarrow> v \<in> set vs \<Longrightarrow>
   \<exists>j<length rs. validateHealthData (clock e (i + j)) dt (rs ! j) = Valid \<and>
                 v = sanitizeHealthData dt (rs ! j)"
proof (induction rs arbitrary: i vs es)
  case Nil
  then show ?case by simp
next
  case (Cons r rs)
  obtain vs' es' where rec: "process_records e dt (Suc i) rs = (vs', es')"
    by (cases "process_records e dt (Suc i) rs")
  show ?case
  proof (cases "validateHealthData (clock e i) dt r")
    case Valid
    with Cons.prems rec have vs: "vs = sanitizeHealthData dt r # vs'" by simp
    show ?thesis
    proof (cases "v \<in> set vs'")
      case True
      from Cons.IH[OF rec True] obtain j where
        "j < length rs" "validateHealthData (clock e (Suc i + j)) dt (rs ! j) = Valid"
        "v = sanitizeHealthData dt (rs ! j)" by blast
      then show ?thesis by (intro exI[of _ "Suc j"]) simp
    next
      case False
      with vs Cons.prems(2) have "v = sanitizeHealthData dt r" by simp
      with Valid show ?thesis by (intro exI[of _ 0]) simp
    qed
  next
    case (Invalid err)
    with Cons.prems rec have "vs = vs'" by simp
    with Cons.prems(2) have "v \<in> set vs'" by simp
    from Cons.IH[OF rec this] obtain j where
      "j < length rs" "validateHealthData (clock e (Suc i + j)) dt (rs ! j) = Valid"
      "v = sanitizeHealthData dt (rs ! j)" by blast
    then show ?thesis by (intro exI[of _ "Suc j"]) simp
  qed
qed


lemma insertHealthRecords_frame:
  "insertHealthRecords e k dev dt vs d = (n, d') \<Longrightarrow>
   devices d' = devices d \<and> sync_sessions d' = sync_sessions d \<and>
   (\<exists>rows. health_data d' = health_data d @ rows \<and> length rows = n \<and>
      (\<forall>row\<in>set rows. h_device_id row = dev \<and> h_data_type row = dt \<and>
          (\<exists>v\<in>set vs. s_timestamp v = Some (h_timestamp row))))"
proof (induction vs arbitrary: k d n d')
  case Nil
  then show ?case by simp
next
  case (Cons v vs)
  show ?case
  proof (cases "insertHealthRow (rejects e (InsertRecord k)) (current_timestamp e) dev dt v d")
    case None
    with Cons.prems have "insertHealthRecords e (Suc k) dev dt vs d = (n, d')" by simp
    from Cons.IH[OF this] show ?thesis by auto
  next
    case (Some d1)
    obtain n1 d2 where rec: "insertHealthRecords e (Suc k) dev dt vs d1 = (n1, d2)"
      by (cases "insertHealthRecords e (Suc k) dev dt vs d1")
    with Some Cons.prems have nd: "n = Suc n1" "d' = d2" by simp_all
    from Some obtain ts where ts: "s_timestamp v = Some ts"
      and d1: "d1 = d\<lparr>health_data := health_data d @
                    [\<lparr>h_device_id = dev, h_data_type = dt, h_timestamp = ts,
                      h_value = s_value v, h_unit = or_null (s_unit v),
                      h_metadata = s_metadata v, h_source_app = or_null (s_sourceApp v),
                      h_created_at = current_timestamp e\<rparr>]\<rparr>"
      by (auto simp: insertHealthRow_def split: if_splits option.splits)
    from Cons.IH[OF rec] obtain rows where rows:
      "devices d2 = devices d1" "sync_sessions d2 = sync_sessions d1"
      "health_data d2 = health_data d1 @ rows" "length rows = n1"
      "\<forall>row\<in>set rows. h_device_id row = dev \<and> h_data_type row = dt \<and>
          (\<exists>v\<in>set vs. s_timestamp v = Some (h_timestamp row))" by blast
    let ?row = "\<lparr>h_device_id = dev, h_data_type = dt, h_timestamp = ts,
                      h_value = s_value v, h_unit = or_null (s_unit v),
                      h_metadata = s_metadata v, h_source_app = or_null (s_sourceApp v),
                      h_created_at = current_timestamp e\<rparr>"
    have "health_data d' = health_data d @ (?row # rows)"
      using rows(3) nd d1 by simp
    moreover have "length (?row # rows) = n" using rows(4) nd by simp
    moreover have "\<forall>row\<in>set (?row # rows). h_device_id row = dev \<and> h_data_type row = dt \<and>
          (\<exists>v'\<in>set (v # vs). s_timestamp v' = Some (h_timestamp row))"
      using rows(5) ts by auto
    moreover have "devices d' = devices d" "sync_sessions d' = sync_sessions d"
      using rows(1,2) nd d1 by simp_all
    ultimately show ?thesis by blast
  qed
qed

lemma insertHealthRecords_count:
  "devices d dev \<noteq> None \<Longrightarrow> \<forall>v\<in>set vs. s_timestamp v \<noteq> None \<Longrightarrow>
   insertHealthRecords e k dev dt vs d = (n, d') \<Longrightarrow>
   n + length (filter (\<lambda>k. rejects e (InsertRecord k)) [k..<k + length vs]) = length vs"
proof (induction vs arbitrary: k d n d')
  case Nil
  then show ?case by simp
next
  case (Cons v vs)
  have upt: "[k..<k + length (v # vs)] = k # [Suc k..<Suc k + length vs]"
    by (simp add: upt_rec)
  show ?case
  proof (cases "insertHealthRow (rejects e (InsertRecord k)) (current_timestamp e) dev dt v d")
    case None
    with Cons.prems have f: "rejects e (InsertRecord k)"
      by (auto simp: insertHealthRow_def split: if_splits option.splits)
    from None Cons.prems have "insertHealthRecords e (Suc k) dev dt vs d = (n, d')" by simp
    from Cons.IH[OF Cons.prems(1) _ this] Cons.prems(2)
    have "n + length (filter (\<lambda>k. rejects e (InsertRecord k)) [Suc k..<Suc k + length vs]) = length vs" by simp
    then show ?thesis unfolding upt using f by simp
  next
    case (Some d1)
    then have f: "\<not> rejects e (InsertRecord k)" and dv: "devices d1 = devices d"
      by (auto simp: insertHealthRow_def split: if_splits option.splits)
    obtain n1 d2 where rec: "insertHealthRecords e (Suc k) dev dt vs d1 = (n1, d2)"
      by (cases "insertHealthRecords e (Suc k) dev dt vs d1")
    with Some Cons.prems have nd: "n = Suc n1" by simp
    have "devices d1 dev \<noteq> None" using dv Cons.prems(1) by simp
    from Cons.IH[OF this _ rec] Cons.prems(2)
    have "n1 + length (filter (\<lambda>k. rejects e (InsertRecord k)) [Suc k..<Suc k + length vs]) = length vs" by simp
    then show ?thesis unfolding upt using f nd by simp
  qed
qed


section \<open>The ingestion handler, case by case\<close>

lemma post_health_data_cases:
  assumes "post_health_data e req d = (resp, d')"
  shows "(d' = d \<and> (\<forall>b. resp \<noteq> Status200 b)) \<or>
         (\<exists>dev dt records vs es n d1 d2.
            reached e req d dev dt records vs es n d1 d2 \<and>
            (case updateDeviceLastSync e dev
                    (case map s_timestamp vs of
                       [] \<Rightarrow> Some (clock e (length records)) | t # ts \<Rightarrow> Math_max t ts) d2 of
               None \<Rightarrow> resp = Status500 \<and> d' = d2
             | Some d3 \<Rightarrow>
                 resp = Status200
                   \<lparr>b_processed =
                      \<lparr>p_total = length records, p_inserted = n, p_errors = length es\<rparr>,
                    b_errors = es\<rparr> \<and> d' = d3))"
proof (cases "\<exists>dev dt records d1. q_deviceId req = Some dev \<and> q_dataType req = Some dt \<and>
      q_records req = Some records \<and> dev \<noteq> [] \<and> dt \<in> set supportedTypes \<and>
      int (length records) \<le> maxBatchSize \<and>
      ensureDeviceExists e dev (q_deviceName req) (or_else (q_deviceType req) ''wearos'') d
        = Some d1")
  case False
  with assms have "d' = d \<and> (\<forall>b. resp \<noteq> Status200 b)"
    by (auto simp: post_health_data_def split: option.splits if_splits)
  then show ?thesis by blast
next
  case True
  then obtain dev dt records d1 where req:
    "q_deviceId req = Some dev" "q_dataType req = Some dt" "q_records req = Some records"
    and guards: "dev \<noteq> []" "dt \<in> set supportedTypes" "int (length records) \<le> maxBatchSize"
    and d1: "ensureDeviceExists e dev (q_deviceName req) (or_else (q_deviceType req) ''wearos'') d
        = Some d1" by blast
  have dt: "dt \<noteq> []" using guards(2) by (auto simp: supportedTypes_def)
  obtain vs es where pr: "process_records e dt 0 records = (vs, es)"
    by (cases "process_records e dt 0 records")
  obtain n d2 where ins: "insertHealthRecords e 0 dev dt vs d1 = (n, d2)"
    by (cases "insertHealthRecords e 0 dev dt vs d1")
  have ins': "(if vs \<noteq> [] then insertHealthRecords e 0 dev dt vs d1 else (0, d1)) = (n, d2)"
    using ins by (cases vs) auto
  have r: "reached e req d dev dt records vs es n d1 d2"
    using req guards d1 pr ins by (simp add: reached_def)
  have "case updateDeviceLastSync e dev
                    (case map s_timestamp vs of
                       [] \<Rightarrow> Some (clock e (length records)) | t # ts \<Rightarrow> Math_max t ts) d2 of
               None \<Rightarrow> resp = Status500 \<and> d' = d2
             | Some d3 \<Rightarrow>
                 resp = Status200
                   \<lparr>b_processed =
                      \<lparr>p_total = length records, p_inserted = n, p_errors = length es\<rparr>,
                    b_errors = es\<rparr> \<and> d' = d3"
    using assms req guards dt d1 pr ins'
    by (auto simp: post_health_data_def Let_def split: option.splits)
  with r show ?thesis by blast
qed

lemma post_health_data_200:
  assumes "post_health_data e req d = (Status200 b, d')"
  shows "\<exists>dev dt records vs es n d1 d2.
      reached e req d dev dt records vs es n d1 d2 \<and>
      b = \<lparr>b_processed = \<lparr>p_total = length records, p_inserted = n, p_errors = length es\<rparr>,
           b_errors = es\<rparr> \<and>
      updateDeviceLastSync e dev
             (case map s_timestamp vs of
                [] \<Rightarrow> Some (clock e (length records)) | t # ts \<Rightarrow> Math_max t ts) d2 = Some d'"
  using post_health_data_cases[OF assms]
  by (fastforce split: option.splits)

lemma post_health_data_oversized:
  assumes "q_records req = Some records" and "int (length records) > maxBatchSize"
  shows "\<exists>msg. post_health_data e req d = (Status400 msg, d)"
  using assms
  by (auto simp: post_health_data_def split: option.splits)

lemma ensureDeviceExists_Some:
  assumes "ensureDeviceExists e dev nm ty d = Some d1"
  shows "devices d1 dev \<noteq> None \<and> health_data d1 = health_data d \<and>
         sync_sessions d1 = sync_sessions d \<and> (\<forall>x. x \<noteq> dev \<longrightarrow> devices d1 x = devices d x)"
  using assms
  by (auto simp: ensureDeviceExists_def split: option.splits if_splits)

lemma ensureDeviceExists_cursor:
  assumes "ensureDeviceExists e dev nm ty d = Some d1"
  shows "lastSyncCursor d1 dev = (if devices d dev = None then Some 0 else lastSyncCursor d dev)"
  using assms
  by (auto simp: ensureDeviceExists_def lastSyncCursor_def split: option.splits if_splits)

lemma lastSyncCursor_update:
  "devices d dev \<noteq> None \<Longrightarrow> updateDeviceLastSync e dev ts d = Some d' \<Longrightarrow>
   lastSyncCursor d' dev = ts"
  by (auto simp: lastSyncCursor_def updateDeviceLastSync_def split: if_splits)


lemma not_rolled_back_refl: "not_rolled_back c c"
  by (simp add: not_rolled_back_def split: option.splits)


lemma Math_max_Some:
  "\<forall>x\<in>set (t # ts). x \<noteq> None \<Longrightarrow>
   \<exists>m. Math_max t ts = Some m \<and> Some m \<in> set (t # ts) \<and> (\<forall>u. Some u \<in> set (t # ts) \<longrightarrow> u \<le> m)"
proof (induction ts arbitrary: t)
  case Nil
  then show ?case by (cases t) (auto simp: Math_max_def)
next
  case (Cons a ts)
  from Cons.prems obtain x y where xy: "t = Some x" "a = Some y" by auto
  have step: "Math_max t (a # ts) = Math_max (Some (max x y)) ts"
    by (simp add: Math_max_def max2_def xy)
  have "\<forall>z\<in>set (Some (max x y) # ts). z \<noteq> None" using Cons.prems by simp
  from Cons.IH[OF this] obtain m where m: "Math_max (Some (max x y)) ts = Some m"
    "Some m \<in> set (Some (max x y) # ts)" "\<forall>u. Some u \<in> set (Some (max x y) # ts) \<longrightarrow> u \<le> m"
    by blast
  have "Some m \<in> set (t # a # ts)" using m(2) xy by (auto simp: max_def split: if_splits)
  moreover have "\<forall>u. Some u \<in> set (t # a # ts) \<longrightarrow> u \<le> m"
    using m(3) xy by auto
  ultimately show ?case using step m(1) by auto
qed

lemma process_records_timestamps:
  assumes "process_records e dt i rs = (vs, es)" and "v \<in> set vs"
  shows "\<exists>j ts. j < length rs \<and> r_timestamp (rs ! j) = Some ts \<and> s_timestamp v = Some ts \<and>
           validateHealthData (clock e (i + j)) dt (rs ! j) = Valid \<and>
           clock e (i + j) - maxRecordAge \<le> ts \<and> ts \<le> clock e (i + j) + 5 * 60 * 1000"
proof -
  from process_records_valid[OF assms] obtain j where j: "j < length rs"
    "validateHealthData (clock e (i + j)) dt (rs ! j) = Valid" "v = sanitizeHealthData dt (rs ! j)"
    by blast
  from validateHealthData_Valid_window[OF j(2)] obtain ts where ts:
    "r_timestamp (rs ! j) = Some ts" "clock e (i + j) - maxRecordAge \<le> ts"
    "ts \<le> clock e (i + j) + 5 * 60 * 1000" by blast
  have "s_timestamp v = Some ts" using j(3) ts(1) by (simp add: sanitizeHealthData_def parseInt_def)
  with j ts show ?thesis by blast
qed

lemma batch_cursor_charact:
  "(fst (process_records e dt 0 records) = [] \<longrightarrow>
       batch_cursor e dt records = Some (clock e (length records))) \<and>
   (fst (process_records e dt 0 records) \<noteq> [] \<longrightarrow>
      (\<exists>m. batch_cursor e dt records = Some m \<and>
           Some m \<in> s_timestamp ` set (fst (process_records e dt 0 records)) \<and>
           (\<forall>v\<in>set (fst (process_records e dt 0 records)).
               \<exists>t. s_timestamp v = Some t \<and> t \<le> m)))"
proof (cases "fst (process_records e dt 0 records)")
  case Nil
  then show ?thesis by (simp add: batch_cursor_def)
next
  case (Cons v vs)
  obtain es where pr: "process_records e dt 0 records = (v # vs, es)"
    using Cons by (cases "process_records e dt 0 records") simp
  have some: "\<forall>x\<in>set (v # vs). \<exists>t. s_timestamp x = Some t"
    using process_records_timestamps[OF pr] by blast
  then have "\<forall>x\<in>set (s_timestamp v # map s_timestamp vs). x \<noteq> None" by auto
  from Math_max_Some[OF this] obtain m where m:
    "Math_max (s_timestamp v) (map s_timestamp vs) = Some m"
    "Some m \<in> set (s_timestamp v # map s_timestamp vs)"
    "\<forall>u. Some u \<in> set (s_timestamp v # map s_timestamp vs) \<longrightarrow> u \<le> m" by blast
  have a: "batch_cursor e dt records = Some m" using m(1) Cons by (simp add: batch_cursor_def)
  have b: "Some m \<in> s_timestamp ` set (v # vs)" using m(2) by auto
  have c: "\<forall>x\<in>set (v # vs). \<exists>t. s_timestamp x = Some t \<and> t \<le> m"
  proof
    fix x assume x: "x \<in> set (v # vs)"
    with some obtain t where t: "s_timestamp x = Some t" by blast
    with x have "Some t \<in> set (s_timestamp v # map s_timestamp vs)" by force
    with m(3) t show "\<exists>t. s_timestamp x = Some t \<and> t \<le> m" by blast
  qed
  show ?thesis using a b c Cons by simp
qed



section \<open>Runs on concrete inputs\<close>

lemmas eval_defs =
  post_health_data_def batch_def reading_def env0_def empty_db_def
  supportedTypes_def maxBatchSize_def ensureDeviceExists_def or_else_def or_null_def
  validateHealthData_def validateValueByType_def truthy_def parseInt_def parseFloat_def
  maxRecordAge_def out_of_range_def heartRate_def steps_def no_metadata_def
  sanitizeHealthData_def sanitizeString_opt_def insertHealthRow_def updateDeviceLastSync_def
  Math_max_def max2_def

lemma run_a:
  "post_health_data env0 (batch ''w1'' ''heart_rate'' [reading 1700000000000 72]) empty_db =
     (Status200 \<lparr>b_processed = \<lparr>p_total = 1, p_inserted = 1, p_errors = 0\<rparr>, b_errors = []\<rparr>,
      db_a)"
  by (simp add: eval_defs db_a_def)




section \<open>The sync cursor under ingestion\<close>

text \<open>
  Claim C1, as stated: the stored cursor of a device never goes down across ingestion
  calls. It does. Device \<^verbatim>\<open>w1\<close> sends a heart rate stamped 1700000000000 and its cursor
  becomes 1700000000000; it then sends one stamped a second earlier, which is valid, and
  its cursor becomes 1699999999000: \<open>updateDeviceLastSync\<close> writes the maximum of the
  batch without reading the stored value.
\<close>

theorem C1_cursor_rolled_back:
  "lastSyncCursor (snd (post_health_data env0
       (batch ''w1'' ''heart_rate'' [reading 1700000000000 72]) empty_db)) ''w1''
     = Some 1700000000000 \<and>
   lastSyncCursor (snd (post_health_data env0
       (batch ''w1'' ''heart_rate'' [reading 1699999999000 75])
       (snd (post_health_data env0
          (batch ''w1'' ''heart_rate'' [reading 1700000000000 72]) empty_db)))) ''w1''
     = Some 1699999999000 \<and>
   \<not> not_rolled_back
       (lastSyncCursor (snd (post_health_data env0
          (batch ''w1'' ''heart_rate'' [reading 1700000000000 72]) empty_db)) ''w1'')
       (lastSyncCursor (snd (post_health_data env0
          (batch ''w1'' ''heart_rate'' [reading 1699999999000 75])
          (snd (post_health_data env0
             (batch ''w1'' ''heart_rate'' [reading 1700000000000 72]) empty_db)))) ''w1'')"
proof -
  have a: "lastSyncCursor db_a ''w1'' = Some 1700000000000"
    by (simp add: lastSyncCursor_def db_a_def)
  have b: "lastSyncCursor
             (snd (post_health_data env0
                (batch ''w1'' ''heart_rate'' [reading 1699999999000 75]) db_a)) ''w1''
           = Some 1699999999000"
    by (simp add: eval_defs db_a_def lastSyncCursor_def)
  show ?thesis
    by (simp only: run_a snd_conv a b) (simp add: not_rolled_back_def)
qed

text \<open>
  Claim C1, amended: an ingestion call naming device D that is answered with status 200
  sets the stored cursor of D to the largest timestamp among the records of the batch
  that passed validation, or to the reading of the wall clock when none passed, whatever
  the cursor was before; so the call leaves the cursor at or above its previous value
  exactly when that value is at or above it. A call answered with another status leaves
  the cursor as it was, or at 0 on a device row that it created.
\<close>

theorem C1_cursor_is_batch_maximum:
  assumes "post_health_data e req d = (resp, d')"
    and "q_deviceId req = Some dev" and "q_dataType req = Some dt"
    and "q_records req = Some records"
  shows "(\<forall>b. resp = Status200 b \<longrightarrow>
            lastSyncCursor d' dev = batch_cursor e dt records \<and>
            (not_rolled_back (lastSyncCursor d dev) (lastSyncCursor d' dev) \<longleftrightarrow>
             not_rolled_back (lastSyncCursor d dev) (batch_cursor e dt records))) \<and>
         ((\<forall>b. resp \<noteq> Status200 b) \<longrightarrow>
            (lastSyncCursor d' dev = lastSyncCursor d dev \<or>
             devices d dev = None \<and> lastSyncCursor d' dev = Some 0) \<and>
            not_rolled_back (lastSyncCursor d dev) (lastSyncCursor d' dev)) \<and>
         (fst (process_records e dt 0 records) = [] \<longrightarrow>
            batch_cursor e dt records = Some (clock e (length records))) \<and>
         (fst (process_records e dt 0 records) \<noteq> [] \<longrightarrow>
            (\<exists>m. batch_cursor e dt records = Some m \<and>
                 Some m \<in> s_timestamp ` set (fst (process_records e dt 0 records)) \<and>
                 (\<forall>v\<in>set (fst (process_records e dt 0 records)).
                     \<exists>t. s_timestamp v = Some t \<and> t \<le> m)))"
proof -
  have ok: "lastSyncCursor d' dev = batch_cursor e dt records" if "resp = Status200 b" for b
  proof -
    from post_health_data_200[OF assms(1)[unfolded that]] assms(2-4)
    obtain vs es n d1 d2 where
      r: "reached e req d dev dt records vs es n d1 d2"
      and upd: "updateDeviceLastSync e dev
             (case map s_timestamp vs of
                [] \<Rightarrow> Some (clock e (length records)) | t # ts \<Rightarrow> Math_max t ts) d2 = Some d'"
      by (auto simp: reached_def)
    from r have d1: "ensureDeviceExists e dev (q_deviceName req)
                       (or_else (q_deviceType req) ''wearos'') d = Some d1"
      and pr: "process_records e dt 0 records = (vs, es)"
      and ins: "insertHealthRecords e 0 dev dt vs d1 = (n, d2)"
      by (simp_all add: reached_def)
    have "devices d2 dev \<noteq> None"
      using ensureDeviceExists_Some[OF d1] insertHealthRecords_frame[OF ins] by simp
    from lastSyncCursor_update[OF this upd] show ?thesis
      by (simp add: batch_cursor_def pr)
  qed
  have other: "lastSyncCursor d' dev = lastSyncCursor d dev \<or>
             devices d dev = None \<and> lastSyncCursor d' dev = Some 0"
    if no: "\<forall>b. resp \<noteq> Status200 b"
  proof -
    from post_health_data_cases[OF assms(1)] show ?thesis
    proof
      assume "d' = d \<and> (\<forall>b. resp \<noteq> Status200 b)"
      then show ?thesis by simp
    next
      assume "\<exists>dev dt records vs es n d1 d2.
            reached e req d dev dt records vs es n d1 d2 \<and>
            (case updateDeviceLastSync e dev
                    (case map s_timestamp vs of
                       [] \<Rightarrow> Some (clock e (length records)) | t # ts \<Rightarrow> Math_max t ts) d2 of
               None \<Rightarrow> resp = Status500 \<and> d' = d2
             | Some d3 \<Rightarrow>
                 resp = Status200
                   \<lparr>b_processed =
                      \<lparr>p_total = length records, p_inserted = n, p_errors = length es\<rparr>,
                    b_errors = es\<rparr> \<and> d' = d3)"
      then obtain dev0 dt0 records0 vs es n d1 d2 where
        r: "reached e req d dev0 dt0 records0 vs es n d1 d2" and d': "d' = d2"
        using no by (auto split: option.splits)
      from r assms(2) have dev0: "dev0 = dev" by (simp add: reached_def)
      from r have d1: "ensureDeviceExists e dev (q_deviceName req)
                       (or_else (q_deviceType req) ''wearos'') d = Some d1"
        and ins: "insertHealthRecords e 0 dev dt0 vs d1 = (n, d2)"
        by (simp_all add: reached_def dev0)
      have "lastSyncCursor d2 dev = lastSyncCursor d1 dev"
        using insertHealthRecords_frame[OF ins] by (simp add: lastSyncCursor_def)
      with ensureDeviceExists_cursor[OF d1] d' show ?thesis by (auto split: if_splits)
    qed
  qed
  have other': "not_rolled_back (lastSyncCursor d dev) (lastSyncCursor d' dev)"
    if no: "\<forall>b. resp \<noteq> Status200 b"
  proof -
    from other[OF no] show ?thesis
    proof
      assume "lastSyncCursor d' dev = lastSyncCursor d dev"
      then show ?thesis by (simp add: not_rolled_back_refl)
    next
      assume "devices d dev = None \<and> lastSyncCursor d' dev = Some 0"
      then have "lastSyncCursor d dev = None" by (simp add: lastSyncCursor_def)
      then show ?thesis by (simp add: not_rolled_back_def)
    qed
  qed
  show ?thesis
    using ok other other' batch_cursor_charact[of e dt records] by simp
qed

text \<open>
  The first call of the run above: the cursor of \<^verbatim>\<open>w1\<close> is the timestamp of its one
  record.
\<close>

theorem C1_cursor_is_batch_maximum_witness:
  "fst (post_health_data env0 (batch ''w1'' ''heart_rate'' [reading 1700000000000 72]) empty_db)
     = Status200 \<lparr>b_processed = \<lparr>p_total = 1, p_inserted = 1, p_errors = 0\<rparr>, b_errors = []\<rparr> \<and>
   lastSyncCursor
     (snd (post_health_data env0 (batch ''w1'' ''heart_rate'' [reading 1700000000000 72]) empty_db))
     ''w1'' = batch_cursor env0 ''heart_rate'' [reading 1700000000000 72] \<and>
   batch_cursor env0 ''heart_rate'' [reading 1700000000000 72] = Some 1700000000000"
proof -
  have v: "batch_cursor env0 ''heart_rate'' [reading 1700000000000 72] = Some 1700000000000"
    by (simp add: batch_cursor_def eval_defs)
  have c: "lastSyncCursor db_a ''w1'' = batch_cursor env0 ''heart_rate'' [reading 1700000000000 72]"
    using C1_cursor_is_batch_maximum [OF run_a, of "''w1''" "''heart_rate''"
        "[reading 1700000000000 72]"]
    by (simp add: batch_def)
  show ?thesis
    by (simp only: run_a fst_conv snd_conv c v)
qed


section \<open>The response counts\<close>

lemma process_records_errors_sound:
  "process_records e dt i rs = (vs, es) \<Longrightarrow> (k, err) \<in> set es \<Longrightarrow>
   \<exists>j<length rs. k = i + j \<and> validateHealthData (clock e (i + j)) dt (rs ! j) = Invalid err"
proof (induction rs arbitrary: i vs es)
  case Nil
  then show ?case by simp
next
  case (Cons r rs)
  obtain vs' es' where rec: "process_records e dt (Suc i) rs = (vs', es')"
    by (cases "process_records e dt (Suc i) rs")
  have tail: "\<exists>j<length (r # rs). k = i + j \<and>
        validateHealthData (clock e (i + j)) dt ((r # rs) ! j) = Invalid err"
    if "(k, err) \<in> set es'"
  proof -
    from Cons.IH[OF rec that] obtain j where "j < length rs" "k = Suc i + j"
      "validateHealthData (clock e (Suc i + j)) dt (rs ! j) = Invalid err" by blast
    then show ?thesis by (intro exI[of _ "Suc j"]) simp
  qed
  show ?case
  proof (cases "validateHealthData (clock e i) dt r")
    case Valid
    with Cons.prems rec have "es = es'" by simp
    with Cons.prems(2) tail show ?thesis by simp
  next
    case (Invalid err')
    with Cons.prems rec have es: "es = (i, err') # es'" by simp
    show ?thesis
    proof (cases "(k, err) \<in> set es'")
      case True
      with tail show ?thesis by simp
    next
      case False
      with es Cons.prems(2) have "k = i" "err = err'" by simp_all
      with Invalid show ?thesis by (intro exI[of _ 0]) simp
    qed
  qed
qed

text \<open>
  Claim C2, as stated: in every response \<open>inserted + len(errors) = total\<close>, also when
  insertions fail in the store. It does not hold then. A batch of one valid record whose
  insertion the store rejects is answered with total 1, inserted 0 and no error:
  \<open>insertHealthRecords\<close> logs the failure and does not count it, and nothing adds it to
  the errors of the response.
\<close>

theorem C2_storage_failure_uncounted:
  "(case fst (post_health_data env_storage_down
              (batch ''w1'' ''heart_rate'' [reading 1700000000000 72]) empty_db) of
      Status200 b \<Rightarrow>
        p_total (b_processed b) = 1 \<and> p_inserted (b_processed b) = 0 \<and> b_errors b = [] \<and>
        p_inserted (b_processed b) + length (b_errors b) \<noteq> p_total (b_processed b)
    | _ \<Rightarrow> False)"
  by (simp add: eval_defs env_storage_down_def)

text \<open>
  Claim C2, amended: in every response with status 200, \<open>total\<close> is the length of the
  submitted array, \<open>errors\<close> lists the records that failed validation, each with its
  index in the batch and its reason, and \<open>inserted + len(errors)\<close> plus the number of
  validated records whose insertion the store rejected equals \<open>total\<close>; so
  \<open>inserted + len(errors) = total\<close> when no insertion fails in the store.
\<close>

theorem C2_inserted_errors_rejected_total:
  assumes "post_health_data e req d = (Status200 b, d')"
    and "q_dataType req = Some dt" and "q_records req = Some records"
  shows "p_total (b_processed b) = length records \<and>
         p_errors (b_processed b) = length (b_errors b) \<and>
         b_errors b = snd (process_records e dt 0 records) \<and>
         (\<forall>i err. (i, err) \<in> set (b_errors b) \<longrightarrow>
            i < length records \<and> validateHealthData (clock e i) dt (records ! i) = Invalid err) \<and>
         p_inserted (b_processed b) + length (b_errors b)
           + length (filter (\<lambda>k. rejects e (InsertRecord k)) [0..<length (fst (process_records e dt 0 records))])
           = p_total (b_processed b) \<and>
         ((\<forall>k. \<not> rejects e (InsertRecord k)) \<longrightarrow>
            p_inserted (b_processed b) + length (b_errors b) = p_total (b_processed b))"
proof -
  from post_health_data_200[OF assms(1)] assms(2,3)
  obtain dev d1 vs es n d2 where
    d1: "ensureDeviceExists e dev (q_deviceName req) (or_else (q_deviceType req) ''wearos'') d
           = Some d1"
    and pr: "process_records e dt 0 records = (vs, es)"
    and ins: "insertHealthRecords e 0 dev dt vs d1 = (n, d2)"
    and b: "b = \<lparr>b_processed = \<lparr>p_total = length records, p_inserted = n, p_errors = length es\<rparr>,
           b_errors = es\<rparr>"
    by (auto simp: reached_def)
  have len: "length vs + length es = length records"
    using process_records_length[OF pr] .
  have dev: "devices d1 dev \<noteq> None" using ensureDeviceExists_Some[OF d1] by simp
  have ts: "\<forall>v\<in>set vs. s_timestamp v \<noteq> None"
    using process_records_timestamps[OF pr] by fastforce
  have cnt: "n + length (filter (\<lambda>k. rejects e (InsertRecord k)) [0..<length vs]) = length vs"
    using insertHealthRecords_count[OF dev ts ins] by simp
  have idx: "\<forall>i err. (i, err) \<in> set es \<longrightarrow>
            i < length records \<and> validateHealthData (clock e i) dt (records ! i) = Invalid err"
    using process_records_errors_sound[OF pr] by fastforce
  have nofail: "n + length es = length records" if "\<forall>k. \<not> rejects e (InsertRecord k)"
  proof -
    have "filter (\<lambda>k. rejects e (InsertRecord k)) [0..<length vs] = []" using that by simp
    with cnt len show ?thesis by simp
  qed
  have tot: "n + length es + length (filter (\<lambda>k. rejects e (InsertRecord k)) [0..<length vs]) = length records"
    using len cnt by simp
  show ?thesis
    using tot idx nofail by (simp add: b pr)
qed

text \<open>
  The same batch on a store that accepts every statement: one record, one inserted, no
  error, no rejected insertion.
\<close>

theorem C2_inserted_errors_rejected_total_witness:
  "post_health_data env0 (batch ''w1'' ''heart_rate'' [reading 1700000000000 72]) empty_db
     = (Status200 \<lparr>b_processed = \<lparr>p_total = 1, p_inserted = 1, p_errors = 0\<rparr>, b_errors = []\<rparr>,
        db_a) \<and>
   (1::nat) + length ([] :: (nat \<times> string) list)
     + length (filter (\<lambda>k. rejects env0 (InsertRecord k))
         [0..<length (fst (process_records env0 ''heart_rate'' 0 [reading 1700000000000 72]))])
     = 1"
  using C2_inserted_errors_rejected_total [OF run_a, of "''heart_rate''"
      "[reading 1700000000000 72]"] run_a
  by (simp add: batch_def)


section \<open>Freshness of persisted records\<close>





section \<open>Oversized batches\<close>

text \<open>
  Claim C9: a request whose array of records is longer than \<open>maxBatchSize\<close> (1000) is
  answered with status 400 and leaves the store as it was: no health record is inserted,
  no device row is created or touched and no cursor is changed. With a device identifier
  and a supported data type the answer is the batch size error.
\<close>

theorem C9_oversized_batch_rejected:
  assumes "q_records req = Some records" and "int (length records) > maxBatchSize"
  shows "snd (post_health_data e req d) = d \<and>
         (\<exists>msg. fst (post_health_data e req d) = Status400 msg) \<and>
         (truthy_str (q_deviceId req) \<and> (\<exists>dt. q_dataType req = Some dt \<and> dt \<in> set supportedTypes) \<longrightarrow>
            fst (post_health_data e req d)
              = Status400 ''Batch size exceeds maximum allowed (1000)'')"
proof -
  from post_health_data_oversized[OF assms] obtain msg where
    "post_health_data e req d = (Status400 msg, d)" by blast
  then have a: "snd (post_health_data e req d) = d"
    and b: "\<exists>msg. fst (post_health_data e req d) = Status400 msg" by simp_all
  have c: "fst (post_health_data e req d) = Status400 ''Batch size exceeds maximum allowed (1000)''"
    if "truthy_str (q_deviceId req)" "\<exists>dt. q_dataType req = Some dt \<and> dt \<in> set supportedTypes"
    using that assms
    by (auto simp: post_health_data_def truthy_str_def supportedTypes_def split: option.splits)
  show ?thesis using a b c by blast
qed

text \<open>
  A batch of 1001 records on the empty store: status 400, and the store is still empty.
\<close>

theorem C9_oversized_batch_rejected_witness:
  "int (length (replicate 1001 (reading 1700000000000 72))) > maxBatchSize \<and>
   post_health_data env0 (batch ''w1'' ''heart_rate'' (replicate 1001 (reading 1700000000000 72)))
     empty_db = (Status400 ''Batch size exceeds maximum allowed (1000)'', empty_db)"
proof -
  have h: "int (length (replicate 1001 (reading 1700000000000 72))) > maxBatchSize"
    by (simp add: maxBatchSize_def)
  have r: "q_records (batch ''w1'' ''heart_rate'' (replicate 1001 (reading 1700000000000 72)))
             = Some (replicate 1001 (reading 1700000000000 72))"
    by (simp add: batch_def)
  from C9_oversized_batch_rejected [OF r h, of env0 empty_db]
  have "snd (post_health_data env0
          (batch ''w1'' ''heart_rate'' (replicate 1001 (reading 1700000000000 72))) empty_db)
          = empty_db"
    and "fst (post_health_data env0
          (batch ''w1'' ''heart_rate'' (replicate 1001 (reading 1700000000000 72))) empty_db)
          = Status400 ''Batch size exceeds maximum allowed (1000)''"
    by (simp_all add: batch_def truthy_str_def supportedTypes_def)
  then show ?thesis using h by (simp add: prod_eq_iff)
qed


section \<open>Bounds on values\<close>

text \<open>
  Claim C5: for a heart rate record whose timestamp passes the structural and freshness
  checks, the value \<open>v\<close> is accepted if and only if \<open>30 \<le> v \<le> 220\<close>; outside these bounds
  the validator answers with a per-record error.
\<close>

theorem C5_heart_rate_bounds:
  assumes "r_timestamp r = Some ts" and "0 < ts"
    and "now - ts \<le> maxRecordAge" and "ts \<le> now + 5 * 60 * 1000"
    and "r_value r = Some v"
  shows "(validateHealthData now ''heart_rate'' r = Valid \<longleftrightarrow> 30 \<le> v \<and> v \<le> 220) \<and>
         (\<not> (30 \<le> v \<and> v \<le> 220) \<longrightarrow>
            validateHealthData now ''heart_rate'' r =
              Invalid (if v = 0 then ''Missing required fields: timestamp and value''
                       else ''Heart rate must be between 30 and 220 bpm''))"
  using assms
  by (auto simp: validateHealthData_def truthy_def parseInt_def parseFloat_def
        validateValueByType_def out_of_range_def heartRate_def)

lemma run_heart_rate_bounds:
  "fst (post_health_data env0
          (batch ''w1'' ''heart_rate''
             [reading 1700000000000 30, reading 1700000000000 220,
              reading 1700000000000 29, reading 1700000000000 221]) empty_db) =
     Status200
       \<lparr>b_processed = \<lparr>p_total = 4, p_inserted = 2, p_errors = 2\<rparr>,
        b_errors = [(2, ''Heart rate must be between 30 and 220 bpm''),
                    (3, ''Heart rate must be between 30 and 220 bpm'')]\<rparr>"
  by (simp add: eval_defs)

text \<open>
  The boundary values, on the validator and through the handler: of a batch of four heart
  rates 30, 220, 29 and 221 the first two are inserted and the last two are reported
  with their index.
\<close>

theorem C5_heart_rate_bounds_witness:
  "validateHealthData 1700000000000 ''heart_rate'' (reading 1700000000000 30) = Valid \<and>
   validateHealthData 1700000000000 ''heart_rate'' (reading 1700000000000 220) = Valid \<and>
   validateHealthData 1700000000000 ''heart_rate'' (reading 1700000000000 29)
     = Invalid ''Heart rate must be between 30 and 220 bpm'' \<and>
   validateHealthData 1700000000000 ''heart_rate'' (reading 1700000000000 221)
     = Invalid ''Heart rate must be between 30 and 220 bpm'' \<and>
   fst (post_health_data env0
          (batch ''w1'' ''heart_rate''
             [reading 1700000000000 30, reading 1700000000000 220,
              reading 1700000000000 29, reading 1700000000000 221]) empty_db) =
     Status200
       \<lparr>b_processed = \<lparr>p_total = 4, p_inserted = 2, p_errors = 2\<rparr>,
        b_errors = [(2, ''Heart rate must be between 30 and 220 bpm''),
                    (3, ''Heart rate must be between 30 and 220 bpm'')]\<rparr>"
proof -
  have t: "r_timestamp (reading 1700000000000 v) = Some 1700000000000"
    and p: "(0::int) < 1700000000000"
    and a: "(1700000000000::int) - 1700000000000 \<le> maxRecordAge"
    and f: "(1700000000000::int) \<le> 1700000000000 + 5 * 60 * 1000"
    and v: "r_value (reading 1700000000000 v) = Some v" for v
    by (simp_all add: reading_def maxRecordAge_def)
  show ?thesis
    using C5_heart_rate_bounds [OF t p a f v, of 30] C5_heart_rate_bounds [OF t p a f v, of 220]
      C5_heart_rate_bounds [OF t p a f v, of 29] C5_heart_rate_bounds [OF t p a f v, of 221]
      run_heart_rate_bounds
    by simp
qed

text \<open>
  Claim C4 says that a steps record with a fresh timestamp is accepted if and only if
  \<open>0 \<le> value \<le> 100000\<close>, and that the value 0 passes. The validator accepts such a
  record if and only if \<open>0 < value \<le> 100000\<close>: the required-fields check \<^verbatim>\<open>!record.value\<close>
  takes the number 0 for a missing value, before the bounds of \<^verbatim>\<open>config\<close>, whose
  minimum is 0, are looked at. The instance after it runs the handler on a batch of one steps
  record of value 0: it is reported as an error and nothing is inserted.
\<close>

theorem C4_steps_zero_rejected:
  assumes "r_timestamp r = Some ts" and "0 < ts"
    and "now - ts \<le> maxRecordAge" and "ts \<le> now + 5 * 60 * 1000"
    and "r_value r = Some v"
  shows "(validateHealthData now ''steps'' r = Valid \<longleftrightarrow> 0 < v \<and> v \<le> 100000) \<and>
         (v = 0 \<longrightarrow> validateHealthData now ''steps'' r
                    = Invalid ''Missing required fields: timestamp and value'')"
  using assms
  by (auto simp: validateHealthData_def truthy_def parseInt_def parseFloat_def
        validateValueByType_def out_of_range_def steps_def)

lemma run_steps_zero:
  "post_health_data env0 (batch ''w1'' ''steps'' [reading 1700000000000 0]) empty_db =
     (Status200
        \<lparr>b_processed = \<lparr>p_total = 1, p_inserted = 0, p_errors = 1\<rparr>,
         b_errors = [(0, ''Missing required fields: timestamp and value'')]\<rparr>,
      \<lparr>devices =
        [''w1'' \<mapsto>
           \<lparr>d_name = ''wearos Device'', d_type = ''wearos'', last_seen = 1700000000,
            last_sync_timestamp = Some 1700000000000, is_active = True,
            d_metadata = auto_created, created_at = 1700000000, updated_at = 1700000000\<rparr>],
       health_data = [], sync_sessions = Map.empty\<rparr>)"
  by (simp add: eval_defs)

theorem C4_steps_zero_rejected_witness:
  "validateHealthData 1700000000000 ''steps'' (reading 1700000000000 0)
     = Invalid ''Missing required fields: timestamp and value'' \<and>
   validateHealthData 1700000000000 ''steps'' (reading 1700000000000 1) = Valid \<and>
   validateHealthData 1700000000000 ''steps'' (reading 1700000000000 100000) = Valid \<and>
   fst (post_health_data env0 (batch ''w1'' ''steps'' [reading 1700000000000 0]) empty_db) =
     Status200
        \<lparr>b_processed = \<lparr>p_total = 1, p_inserted = 0, p_errors = 1\<rparr>,
         b_errors = [(0, ''Missing required fields: timestamp and value'')]\<rparr>"
proof -
  have t: "r_timestamp (reading 1700000000000 v) = Some 1700000000000"
    and p: "(0::int) < 1700000000000"
    and a: "(1700000000000::int) - 1700000000000 \<le> maxRecordAge"
    and f: "(1700000000000::int) \<le> 1700000000000 + 5 * 60 * 1000"
    and v: "r_value (reading 1700000000000 v) = Some v" for v
    by (simp_all add: reading_def maxRecordAge_def)
  show ?thesis
    using C4_steps_zero_rejected [OF t p a f v, of 0] C4_steps_zero_rejected [OF t p a f v, of 1]
      C4_steps_zero_rejected [OF t p a f v, of 100000] run_steps_zero
    by simp
qed


section \<open>Sync reads\<close>

lemma parseInt_str_examples:
  "parseInt_str '' 42abc'' = Some 42" "parseInt_str ''0x1F'' = Some 31"
  "parseInt_str ''-7'' = Some (-7)" "parseInt_str ''abc'' = None" "parseInt_str '''' = None"
  "parseInt_str ''+12.5'' = Some 12" "parseInt_str ''0x'' = None" "parseInt_str ''1e3'' = Some 1"
  by (simp_all add: parseInt_str_def digitValue_def radixValue_def isWhiteSpace_def)

lemma set_limit_offset: "set (limit_offset l off rows) \<subseteq> set rows"
proof -
  have "set (drop (nat off) rows) \<subseteq> set rows" by (rule set_drop_subset)
  moreover have "set (take (nat l) (drop (nat off) rows)) \<subseteq> set (drop (nat off) rows)"
    by (rule set_take_subset)
  ultimately show ?thesis by (auto simp: limit_offset_def Let_def)
qed

lemma set_order_by_timestamp_desc: "set (order_by_timestamp_desc rows) = set rows"
  by (simp add: order_by_timestamp_desc_def)

lemma where_all_Cons: "r \<in> set (where_all (c # cs) rows) \<Longrightarrow> c r \<and> r \<in> set rows"
  by (simp add: where_all_def)

lemma sync_conditions_first:
  "\<exists>cs. sync_conditions deviceId sinceTimestamp until dataType
           = (\<lambda>r. h_device_id r \<noteq> deviceId) # cs"
  by (simp add: sync_conditions_def)

lemma get_sync_data_200:
  assumes "get_sync_data deviceId q d = (Status200 body, d')"
  shows "d' = d \<and>
         sy_data body = limit_offset (sy_limit body) (sy_offset body) (order_by_timestamp_desc
              (where_all (sync_conditions deviceId (sy_lastSyncTimestamp body) (sq_until q)
                 (sq_dataType q)) (health_data d))) \<and>
         sy_total body = length (where_all (sync_conditions deviceId (sy_lastSyncTimestamp body)
                 (sq_until q) (sq_dataType q)) (health_data d))"
  using assms unfolding get_sync_data_def Let_def
  by (auto split: validation.splits option.splits if_splits prod.splits)



lemmas sync_eval_defs =
  get_sync_data_def query_since_def db_sync_def validateSyncParams_def nan_or_negative_def
  parseInt_str_def digitValue_def radixValue_def isWhiteSpace_def maxBatchSize_def
  truthy_str_def sync_conditions_def positive_def greater_than_def at_most_def where_all_def
  order_by_timestamp_desc_def limit_offset_def row_def or_else_def supportedTypes_def
  Let_def

lemma run_sync_read:
  "get_sync_data ''p1'' (query_since ''0'') db_sync =
     (Status200
        \<lparr>sy_data = [row ''w1'' 1700000002000 75, row ''w1'' 1700000001000 72],
         sy_total = 2, sy_limit = 1000, sy_offset = 0, sy_hasMore = False,
         sy_lastSyncTimestamp = Some 0\<rparr>,
      db_sync)"
  by (simp add: sync_eval_defs)

text \<open>
  Claim C6: a sync read for device D, whatever its \<^verbatim>\<open>since\<close>, \<^verbatim>\<open>until\<close>, \<^verbatim>\<open>dataType\<close>,
  \<^verbatim>\<open>limit\<close> and \<^verbatim>\<open>offset\<close>, returns in \<^verbatim>\<open>data\<close> only stored records whose device is
  not D.
\<close>

theorem C6_own_records_excluded:
  assumes "get_sync_data deviceId q d = (Status200 body, d')"
  shows "\<forall>r\<in>set (sy_data body). h_device_id r \<noteq> deviceId \<and> r \<in> set (health_data d)"
proof
  fix r assume r: "r \<in> set (sy_data body)"
  from get_sync_data_200[OF assms] obtain ts u dt l off where
    data: "sy_data body = limit_offset l off (order_by_timestamp_desc
              (where_all (sync_conditions deviceId ts u dt) (health_data d)))" by blast
  obtain cs where cs: "sync_conditions deviceId ts u dt = (\<lambda>r. h_device_id r \<noteq> deviceId) # cs"
    using sync_conditions_first by blast
  from r data have "r \<in> set (where_all ((\<lambda>r. h_device_id r \<noteq> deviceId) # cs) (health_data d))"
    using set_limit_offset set_order_by_timestamp_desc cs by fastforce
  from where_all_Cons[OF this] show "h_device_id r \<noteq> deviceId \<and> r \<in> set (health_data d)" .
qed


text \<open>
  Device \<^verbatim>\<open>p1\<close> reads with \<^verbatim>\<open>since=0\<close>: it receives the two records of \<^verbatim>\<open>w1\<close>, latest
  first, and not its own, which is in the store.
\<close>

theorem C6_own_records_excluded_witness:
  "get_sync_data ''p1'' (query_since ''0'') db_sync =
     (Status200
        \<lparr>sy_data = [row ''w1'' 1700000002000 75, row ''w1'' 1700000001000 72],
         sy_total = 2, sy_limit = 1000, sy_offset = 0, sy_hasMore = False,
         sy_lastSyncTimestamp = Some 0\<rparr>,
      db_sync) \<and>
   h_device_id (row ''w1'' 1700000002000 75) \<noteq> ''p1'' \<and>
   h_device_id (row ''w1'' 1700000001000 72) \<noteq> ''p1'' \<and>
   row ''p1'' 1700000001500 80 \<in> set (health_data db_sync)"
  using C6_own_records_excluded [OF run_sync_read] run_sync_read
  by (simp add: db_sync_def)




section \<open>Session lifecycle\<close>

text \<open>
  Claim C8: on a session whose status is \<^verbatim>\<open>started\<close>, complete (when the store accepts
  its update) answers 200 and moves the session to \<^verbatim>\<open>completed\<close> when no error message is given and to \<^verbatim>\<open>failed\<close> when
  one is (a message that is the empty string counts as none); the session is then in a
  status on which every later complete answers 400 and returns the store unchanged. On a
  session whose status is not \<^verbatim>\<open>started\<close>, complete answers 400 and returns the store
  unchanged, so status, \<^verbatim>\<open>records_synced\<close>, \<^verbatim>\<open>end_time\<close> and \<^verbatim>\<open>error_message\<close> stay.
\<close>

theorem C8_complete_once:
  assumes "c_sessionId req = Some sid" and "sid \<noteq> []" and "sync_sessions d sid = Some s"
  shows
    "(status s = ''started'' \<and> \<not> rejects e UpdateSession \<longrightarrow>
        (let st = (if truthy_str (c_errorMessage req) then ''failed'' else ''completed'');
             n = (case c_recordsSynced req of None \<Rightarrow> 0 | Some k \<Rightarrow> k);
             d' = snd (post_sync_complete e req d)
         in fst (post_sync_complete e req d) = Status200 \<lparr>cb_status = st, cb_recordsSynced = n\<rparr> \<and>
            sync_sessions d' sid =
              Some (s\<lparr>status := st, records_synced := n,
                      end_time := Some (current_timestamp e),
                      error_message := or_null (c_errorMessage req)\<rparr>) \<and>
            (\<forall>e' req'. c_sessionId req' = Some sid \<longrightarrow>
               post_sync_complete e' req' d'
                 = (Status400 (''Cannot complete session with status: '' @ st), d')))) \<and>
     (status s \<noteq> ''started'' \<longrightarrow>
        post_sync_complete e req d
          = (Status400 (''Cannot complete session with status: '' @ status s), d))"
proof (intro conjI impI)
  assume "status s \<noteq> ''started''"
  then show "post_sync_complete e req d
          = (Status400 (''Cannot complete session with status: '' @ status s), d)"
    using assms by (simp add: post_sync_complete_def Let_def)
next
  assume "status s = ''started'' \<and> \<not> rejects e UpdateSession"
  then have started: "status s = ''started''" and acc: "\<not> rejects e UpdateSession"
    by simp_all
  define st where "st = (if truthy_str (c_errorMessage req) then ''failed'' else ''completed'')"
  define n where "n = (case c_recordsSynced req of None \<Rightarrow> 0 | Some k \<Rightarrow> k)"
  define s' where "s' = s\<lparr>status := st, records_synced := n,
                      end_time := Some (current_timestamp e),
                      error_message := or_null (c_errorMessage req)\<rparr>"
  have run: "post_sync_complete e req d =
      (Status200 \<lparr>cb_status = st, cb_recordsSynced = n\<rparr>,
       d\<lparr>sync_sessions := (sync_sessions d)(sid \<mapsto> s')\<rparr>)"
    using assms started acc
    by (simp add: post_sync_complete_def Let_def st_def n_def s'_def)
  have st_not: "st \<noteq> ''started''" by (simp add: st_def)
  have again: "post_sync_complete e' req' (d\<lparr>sync_sessions := (sync_sessions d)(sid \<mapsto> s')\<rparr>)
      = (Status400 (''Cannot complete session with status: '' @ st),
         d\<lparr>sync_sessions := (sync_sessions d)(sid \<mapsto> s')\<rparr>)"
    if "c_sessionId req' = Some sid" for e' req'
    using that assms(2) st_not by (simp add: post_sync_complete_def Let_def s'_def)
  show "let st = (if truthy_str (c_errorMessage req) then ''failed'' else ''completed'');
             n = (case c_recordsSynced req of None \<Rightarrow> 0 | Some k \<Rightarrow> k);
             d' = snd (post_sync_complete e req d)
         in fst (post_sync_complete e req d) = Status200 \<lparr>cb_status = st, cb_recordsSynced = n\<rparr> \<and>
            sync_sessions d' sid =
              Some (s\<lparr>status := st, records_synced := n,
                      end_time := Some (current_timestamp e),
                      error_message := or_null (c_errorMessage req)\<rparr>) \<and>
            (\<forall>e' req'. c_sessionId req' = Some sid \<longrightarrow>
               post_sync_complete e' req' d'
                 = (Status400 (''Cannot complete session with status: '' @ st), d'))"
    unfolding Let_def st_def[symmetric] n_def[symmetric]
    using again by (simp add: run s'_def)
qed

lemma run_start:
  "post_sync_start env0 \<lparr>st_deviceId = Some ''p1'', st_syncType = None\<rparr> db_sync =
     (Status200 \<lparr>sb_sessionId = ''session-1'', sb_syncType = ''http''\<rparr>, db_started)"
  by (simp add: post_sync_start_def db_started_def db_sync_def env0_def Let_def)

text \<open>
  A session is started for \<^verbatim>\<open>p1\<close>; completing it without a message gives
  \<^verbatim>\<open>completed\<close>, with a message \<^verbatim>\<open>failed\<close>; completing the completed session again
  is answered with status 400 and changes nothing.
\<close>

theorem C8_complete_once_witness:
  "post_sync_start env0 \<lparr>st_deviceId = Some ''p1'', st_syncType = None\<rparr> db_sync =
     (Status200 \<lparr>sb_sessionId = ''session-1'', sb_syncType = ''http''\<rparr>, db_started) \<and>
   fst (post_sync_complete env0 (completion ''session-1'' 2 None) db_started)
     = Status200 \<lparr>cb_status = ''completed'', cb_recordsSynced = 2\<rparr> \<and>
   fst (post_sync_complete env0 (completion ''session-1'' 0 (Some ''timeout'')) db_started)
     = Status200 \<lparr>cb_status = ''failed'', cb_recordsSynced = 0\<rparr> \<and>
   post_sync_complete env0 (completion ''session-1'' 0 (Some ''timeout''))
       (snd (post_sync_complete env0 (completion ''session-1'' 2 None) db_started))
     = (Status400 ''Cannot complete session with status: completed'',
        snd (post_sync_complete env0 (completion ''session-1'' 2 None) db_started))"
proof -
  have sid: "c_sessionId (completion ''session-1'' n err) = Some ''session-1''" for n err
    by (simp add: completion_def)
  have ne: "''session-1'' \<noteq> []" by simp
  have s: "sync_sessions db_started ''session-1'' =
       Some \<lparr>ss_device_id = ''p1'', sync_type = ''http'', status = ''started'',
            records_synced = 0, start_time = 1700000000, end_time = None,
            error_message = None\<rparr>"
    by (simp add: db_started_def)
  note ok = C8_complete_once [OF sid [of 2 None] ne s, where e = env0, THEN conjunct1,
      simplified Let_def]
  note failed = C8_complete_once [OF sid [of 0 "Some ''timeout''"] ne s, where e = env0,
      THEN conjunct1, simplified Let_def]
  have a: "fst (post_sync_complete env0 (completion ''session-1'' 2 None) db_started)
     = Status200 \<lparr>cb_status = ''completed'', cb_recordsSynced = 2\<rparr>"
    using ok by (simp add: completion_def truthy_str_def env0_def)
  have b: "fst (post_sync_complete env0 (completion ''session-1'' 0 (Some ''timeout'')) db_started)
     = Status200 \<lparr>cb_status = ''failed'', cb_recordsSynced = 0\<rparr>"
    using failed by (simp add: completion_def truthy_str_def env0_def)
  have c: "post_sync_complete env0 (completion ''session-1'' 0 (Some ''timeout''))
       (snd (post_sync_complete env0 (completion ''session-1'' 2 None) db_started))
     = (Status400 ''Cannot complete session with status: completed'',
        snd (post_sync_complete env0 (completion ''session-1'' 2 None) db_started))"
    using ok sid by (simp add: completion_def truthy_str_def env0_def)
  show ?thesis using run_start a b c by simp
qed


section \<open>Properties of the sanitizer\<close>

lemma trim_trimEnd: "trim s = trimEnd (dropWhile isWhiteSpace s)"
  by (simp add: trim_def trimEnd_def)

lemma trimEnd_Cons_keep: "\<not> isWhiteSpace x \<Longrightarrow> trimEnd (x # xs) = x # trimEnd xs"
  by (simp add: trimEnd_def dropWhile_append)

lemma set_trimEnd: "set (trimEnd s) \<subseteq> set s"
  unfolding trimEnd_def using set_dropWhileD by fastforce

lemma length_trimEnd: "length (trimEnd s) \<le> length s"
  by (simp add: trimEnd_def length_dropWhile_le[of isWhiteSpace "rev s", simplified])

lemma trimEnd_fixed: "trimEnd s = s \<longleftrightarrow> s = [] \<or> \<not> isWhiteSpace (last s)"
proof (cases s rule: rev_cases)
  case Nil
  then show ?thesis by (simp add: trimEnd_def)
next
  case (snoc ys y)
  show ?thesis
  proof (cases "isWhiteSpace y")
    case True
    have "length (trimEnd s) \<le> length ys"
      using True snoc length_trimEnd[of ys] by (simp add: trimEnd_def)
    then have "trimEnd s \<noteq> s" using snoc by auto
    then show ?thesis using True snoc by simp
  next
    case False
    then show ?thesis using snoc by (simp add: trimEnd_def)
  qed
qed

lemma trimEnd_idem: "trimEnd (trimEnd s) = trimEnd s"
  by (simp add: trimEnd_def dropWhile_idem)

lemma dropWhile_trimEnd:
  "dropWhile isWhiteSpace (trimEnd (dropWhile isWhiteSpace s)) =
   trimEnd (dropWhile isWhiteSpace s)"
proof (cases "dropWhile isWhiteSpace s")
  case Nil
  show ?thesis unfolding Nil by (simp add: trimEnd_def)
next
  case (Cons x xs)
  then have "\<not> isWhiteSpace x" using hd_dropWhile[of isWhiteSpace s] by auto
  then show ?thesis using Cons by (simp add: trimEnd_Cons_keep)
qed

lemma dropWhile_take_fixed:
  "dropWhile P v = v \<Longrightarrow> dropWhile P (take n v) = take n v"
proof -
  assume "dropWhile P v = v"
  then have "v = [] \<or> \<not> P (hd v)" by (simp add: dropWhile_eq_self_iff)
  then show ?thesis by (cases v; cases n) auto
qed

text \<open>
  A second pass finds no markup character and no leading whitespace, and its input is
  short enough: all it can still do is remove whitespace that the truncation of the first
  pass left at the end.
\<close>

lemma sanitizeString_twice: "sanitizeString (sanitizeString s) = trimEnd (sanitizeString s)"
proof -
  let ?f = "filter (\<lambda>c. \<not> isMarkup c)"
  let ?s1 = "sanitizeString s"
  have sub: "set ?s1 \<subseteq> set (?f s)"
    unfolding sanitizeString_def trim_trimEnd
    using set_trimEnd set_dropWhileD set_take_subset by fast
  have f1: "?f ?s1 = ?s1"
    using sub by (intro filter_True) auto
  have d1: "dropWhile isWhiteSpace ?s1 = ?s1"
    unfolding sanitizeString_def trim_trimEnd
    by (rule dropWhile_take_fixed) (rule dropWhile_trimEnd)
  have len: "length (trimEnd ?s1) \<le> 255"
    using length_trimEnd[of ?s1] by (simp add: sanitizeString_def)
  have "sanitizeString ?s1 = take 255 (trimEnd (dropWhile isWhiteSpace (?f ?s1)))"
    by (simp add: sanitizeString_def[of ?s1] trim_trimEnd)
  also have "\<dots> = take 255 (trimEnd ?s1)" by (simp only: f1 d1)
  also have "\<dots> = trimEnd ?s1" using len by simp
  finally show ?thesis .
qed

lemma sanitizeString_long:
  "sanitizeString (replicate 254 CHR ''a'' @ '' b'') = replicate 254 CHR ''a'' @ '' ''"
  by (simp add: sanitizeString_def trim_def isMarkup_def isWhiteSpace_def dropWhile_append)

lemma sanitizeString_long_again:
  "sanitizeString (replicate 254 CHR ''a'' @ '' '') = replicate 254 CHR ''a''"
  by (simp add: sanitizeString_def trim_def isMarkup_def isWhiteSpace_def dropWhile_append)

text \<open>
  Claim C10, as stated: \<open>sanitizeString\<close> is idempotent on every string. It is not. On
  254 letters followed by a space and one more letter, the first pass keeps all 256
  characters until the truncation, which cuts after the space; the second pass trims
  that space.
\<close>

theorem C10_sanitizeString_not_idempotent:
  "sanitizeString (sanitizeString (replicate 254 CHR ''a'' @ '' b''))
     \<noteq> sanitizeString (replicate 254 CHR ''a'' @ '' b'')"
  by (simp only: sanitizeString_long sanitizeString_long_again) simp

text \<open>
  Claim C10, amended: a second pass of \<open>sanitizeString\<close> changes nothing whenever the
  first pass did not have to truncate, that is when the string is at most 255 characters
  long after the markup characters and the surrounding whitespace are removed; in
  general the second pass changes nothing exactly when the result of the first pass
  is empty or does not end in whitespace.
\<close>

theorem C10_sanitizeString_idempotent_unless_truncated:
  "(length (trim (filter (\<lambda>c. \<not> isMarkup c) s)) \<le> 255 \<longrightarrow>
      sanitizeString (sanitizeString s) = sanitizeString s) \<and>
   (sanitizeString (sanitizeString s) = sanitizeString s \<longleftrightarrow>
      sanitizeString s = [] \<or> \<not> isWhiteSpace (last (sanitizeString s)))"
proof (intro conjI impI)
  assume "length (trim (filter (\<lambda>c. \<not> isMarkup c) s)) \<le> 255"
  then have "sanitizeString s = trim (filter (\<lambda>c. \<not> isMarkup c) s)"
    by (simp add: sanitizeString_def)
  then have "trimEnd (sanitizeString s) = sanitizeString s"
    by (simp add: trim_trimEnd trimEnd_idem)
  then show "sanitizeString (sanitizeString s) = sanitizeString s"
    by (simp add: sanitizeString_twice)
next
  show "sanitizeString (sanitizeString s) = sanitizeString s \<longleftrightarrow>
      sanitizeString s = [] \<or> \<not> isWhiteSpace (last (sanitizeString s))"
    by (simp only: sanitizeString_twice trimEnd_fixed)
qed

text \<open>
  A unit with markup and surrounding spaces: the first pass gives \<^verbatim>\<open>bbpm/b\<close>, the
  second leaves it.
\<close>

theorem C10_sanitizeString_idempotent_witness:
  "length (trim (filter (\<lambda>c. \<not> isMarkup c) '' <b>bpm</b> '')) \<le> 255 \<and>
   sanitizeString (sanitizeString '' <b>bpm</b> '') = sanitizeString '' <b>bpm</b> '' \<and>
   sanitizeString '' <b>bpm</b> '' = ''bbpm/b''"
proof -
  have h: "length (trim (filter (\<lambda>c. \<not> isMarkup c) '' <b>bpm</b> '')) \<le> 255"
    by (simp add: trim_def isMarkup_def isWhiteSpace_def)
  have v: "sanitizeString '' <b>bpm</b> '' = ''bbpm/b''"
    by (simp add: sanitizeString_def trim_def isMarkup_def isWhiteSpace_def)
  show ?thesis
    using h v C10_sanitizeString_idempotent_unless_truncated [of "'' <b>bpm</b> ''"]
    by simp
qed

end
